theory Spec2Isabelle
  imports Complex_Main "HOL-Library.AList" "HOL-Library.Product_Lexorder"
begin

section \<open>Python strings\<close>

text \<open>
  A Python \<open>str\<close> is modelled as a \<open>string\<close>, a list of characters; a character is a
  code point from U+0000 to U+00FF. On these code points \<open>str.lower\<close>, the word class
  \<open>\w\<close> and the whitespace of \<open>\s\<close>, \<open>str.split\<close> and \<open>str.strip\<close> are those of Python:
  \<^item> \<open>lower\<close> maps \<open>A\<close>..\<open>Z\<close> and the capital letters U+00C0..U+00D6 and U+00D8..U+00DE
    to the code point 32 higher and leaves every other code point alone;
  \<^item> \<open>\w\<close> holds the ASCII letters, the digits and the underscore, the letters
    U+00C0..U+00FF other than the signs U+00D7 and U+00F7, the letters U+00AA, U+00B5
    and U+00BA, and the numeric characters U+00B2, U+00B3, U+00B9 and U+00BC..U+00BE;
  \<^item> whitespace is U+0009..U+000D, U+001C..U+0020, U+0085 and U+00A0.
\<close>

definition ascii_upper :: string where
  "ascii_upper = ''ABCDEFGHIJKLMNOPQRSTUVWXYZ''"

definition ascii_lower :: string where
  "ascii_lower = ''abcdefghijklmnopqrstuvwxyz''"

definition ascii_digits :: string where
  "ascii_digits = ''0123456789''"

definition latin1_upper :: string where
  "latin1_upper =
     [CHR 0xC0, CHR 0xC1, CHR 0xC2, CHR 0xC3, CHR 0xC4, CHR 0xC5, CHR 0xC6, CHR 0xC7,
      CHR 0xC8, CHR 0xC9, CHR 0xCA, CHR 0xCB, CHR 0xCC, CHR 0xCD, CHR 0xCE, CHR 0xCF,
      CHR 0xD0, CHR 0xD1, CHR 0xD2, CHR 0xD3, CHR 0xD4, CHR 0xD5, CHR 0xD6, CHR 0xD8,
      CHR 0xD9, CHR 0xDA, CHR 0xDB, CHR 0xDC, CHR 0xDD, CHR 0xDE]"

definition latin1_lower :: string where
  "latin1_lower =
     [CHR 0xE0, CHR 0xE1, CHR 0xE2, CHR 0xE3, CHR 0xE4, CHR 0xE5, CHR 0xE6, CHR 0xE7,
      CHR 0xE8, CHR 0xE9, CHR 0xEA, CHR 0xEB, CHR 0xEC, CHR 0xED, CHR 0xEE, CHR 0xEF,
      CHR 0xF0, CHR 0xF1, CHR 0xF2, CHR 0xF3, CHR 0xF4, CHR 0xF5, CHR 0xF6, CHR 0xF8,
      CHR 0xF9, CHR 0xFA, CHR 0xFB, CHR 0xFC, CHR 0xFD, CHR 0xFE]"

definition latin1_word :: string where
  "latin1_word =
     [CHR 0xAA, CHR 0xB2, CHR 0xB3, CHR 0xB5, CHR 0xB9, CHR 0xBA, CHR 0xBC, CHR 0xBD,
      CHR 0xBE, CHR 0xDF, CHR 0xFF]"

definition lower_char :: "char \<Rightarrow> char" where
  "lower_char c =
     (case map_of (zip (ascii_upper @ latin1_upper) (ascii_lower @ latin1_lower)) c of
        Some d \<Rightarrow> d
      | None \<Rightarrow> c)"

definition py_lower :: "string \<Rightarrow> string" where
  "py_lower s = map lower_char s"

definition isspace :: "char \<Rightarrow> bool" where
  "isspace c = (c \<in> set [CHR 0x09, CHR 0x0A, CHR 0x0B, CHR 0x0C, CHR 0x0D, CHR '' '',
                          CHR 0x1C, CHR 0x1D, CHR 0x1E, CHR 0x1F, CHR 0x85, CHR 0xA0])"

definition isword :: "char \<Rightarrow> bool" where
  "isword c = (c \<in> set (ascii_upper @ ascii_lower @ ascii_digits @ ''_''
                          @ latin1_upper @ latin1_lower @ latin1_word))"

text \<open>\<open>s.strip()\<close>: whitespace removed at both ends.\<close>

definition py_strip :: "string \<Rightarrow> string" where
  "py_strip s = rev (dropWhile isspace (rev (dropWhile isspace s)))"

text \<open>\<open>s.split()\<close>: the maximal runs of non-whitespace characters, in order.\<close>

function py_split :: "string \<Rightarrow> string list" where
  "py_split s =
     (case dropWhile isspace s of
        [] \<Rightarrow> []
      | c # cs \<Rightarrow> takeWhile (\<lambda>x. \<not> isspace x) (c # cs)
                 # py_split (dropWhile (\<lambda>x. \<not> isspace x) (c # cs)))"
  by pat_completeness auto
termination
proof (relation "measure length")
  show "wf (measure length)" by simp
next
  fix s :: string and c cs
  assume h: "dropWhile isspace s = c # cs"
  then have ns: "\<not> isspace c"
    using hd_dropWhile [of isspace s] by auto
  have "length (dropWhile (\<lambda>x. \<not> isspace x) (c # cs)) \<le> length cs"
    using ns by (simp add: length_dropWhile_le)
  also have "length cs < length (c # cs)" by simp
  also have "length (c # cs) \<le> length s"
    using h length_dropWhile_le [of isspace s] by simp
  finally show "(dropWhile (\<lambda>x. \<not> isspace x) (c # cs), s) \<in> measure length" by simp
qed

declare py_split.simps [simp del]

text \<open>\<open>' '.join(tokens)\<close>.\<close>

fun join_space :: "string list \<Rightarrow> string" where
  "join_space [] = []"
| "join_space [t] = t"
| "join_space (t # u # ts) = t @ CHR '' '' # join_space (u # ts)"

section \<open>Python values, exceptions, broker messages\<close>

text \<open>
  JSON values read by the handlers: \<open>None\<close>, booleans and strings; \<open>POther r\<close> stands for
  any other value (a number, a list, a nested object), \<open>r\<close> being its \<open>str()\<close> rendering.
  A dict is an association list in insertion order. \<open>py_str\<close> is what an f-string puts
  in place of a value.
\<close>

datatype pyval = PNone | PBool bool | PStr string | POther string

fun py_str :: "pyval \<Rightarrow> string" where
  "py_str PNone = ''None''"
| "py_str (PBool b) = (if b then ''True'' else ''False'')"
| "py_str (PStr s) = s"
| "py_str (POther r) = r"

type_synonym pydict = "(string \<times> pyval) list"

text \<open>
  Exceptions. \<open>Raised msg\<close> is an exception thrown by a collaborator (the text generator,
  the broker client, the tracker client), with its message.
\<close>

datatype exn = KeyError string | TypeError | AttributeError | IndexError
  | UnboundLocalError | JSONDecodeError | MultipleResultsFound | Raised string

text \<open>
  Header values of a broker message. \<open>HErr e\<close> is the string \<open>str(e)\<close> of the exception
  \<open>e\<close>.
\<close>

datatype hval = HInt int | HText string | HErr exn

type_synonym headers = "(string \<times> hval) list"

record message =
  msg_body :: string
  msg_headers :: headers
  routing_key :: string

datatype payload = Raw string | Json pydict

text \<open>
  What a handler does to the broker: acknowledge, negative-acknowledge (with the
  \<open>requeue\<close> flag), publish to an exchange under a routing key (the default exchange has
  the empty name).
\<close>

datatype action = Ack | Nack bool | Publish string string payload headers

section \<open>Retry and dead-letter handling\<close>

text \<open>
  \<open>consumer.py\<close> and \<open>consumer_summarization.py\<close>: \<open>MAX_RETRIES = 5\<close>, and the
  \<open>except Exception as e\<close> block of \<open>process_message\<close>, which is the same text in both
  files up to the dead-letter routing key (\<open>dlq.class\<close>, \<open>dlq\<close>) and the local variable
  its log line prints (\<open>body\<close>, \<open>output\<close>).

  \<open>republish_ok\<close>: \<open>publish_retry_message\<close> opened its own connection and published (it
  logs and swallows every exception otherwise). \<open>dlx_ok\<close>: the publish to the dead-letter
  exchange did not raise. \<open>body_bound\<close>: the local variable of the log line was assigned
  before the failure (it is not when \<open>json.loads\<close> itself raised; evaluating the log
  line's arguments then raises \<open>UnboundLocalError\<close> inside the handler).

  The result is the list of broker actions, and the exception that leaves the handler,
  if any.
\<close>

definition MAX_RETRIES :: int where
  "MAX_RETRIES = 5"

record retry_env =
  republish_ok :: bool
  dlx_ok :: bool

definition on_failure ::
  "retry_env \<Rightarrow> string \<Rightarrow> bool \<Rightarrow> message \<Rightarrow> exn \<Rightarrow> action list \<times> exn option" where
  "on_failure env dlq_key body_bound m e =
     (case map_of (msg_headers m) ''x-retries'' of
        Some (HText _) \<Rightarrow> ([], Some TypeError)
      | Some (HErr _) \<Rightarrow> ([], Some TypeError)
      | r \<Rightarrow>
          (let retries = (case r of Some (HInt n) \<Rightarrow> n | _ \<Rightarrow> 0) in
           if retries < MAX_RETRIES then
             (if \<not> body_bound then ([], Some UnboundLocalError)
              else if republish_ok env then
                ([Nack False,
                  Publish [] (routing_key m) (Raw (msg_body m))
                    (AList.update ''x-retries'' (HInt (retries + 1)) (msg_headers m))], None)
              else ([Nack False], None))
           else if dlx_ok env then
             ([Nack False,
               Publish ''dlx'' dlq_key (Raw (msg_body m)) [(''x-error'', HErr e)]], None)
           else ([Nack False], Some (Raised ''publish''))))"

definition classifier_on_failure ::
  "retry_env \<Rightarrow> bool \<Rightarrow> message \<Rightarrow> exn \<Rightarrow> action list \<times> exn option" where
  "classifier_on_failure env = on_failure env ''dlq.class''"







definition broker_up :: retry_env where
  "broker_up = \<lparr>republish_ok = True, dlx_ok = True\<rparr>"







section \<open>The relational store\<close>

text \<open>
  \<open>db_schema2.py\<close>: the tables the handlers read and write, each a list of rows in
  insertion order. Timestamps are naive datetimes, modelled as microseconds since the
  epoch. A nullable string column holds a \<open>pyval\<close> (\<open>PNone\<close> for NULL).
\<close>

type_synonym timestamp = int

record raw_email =
  raw_email_id :: pyval
  raw_sender :: pyval
  raw_subject :: pyval
  raw_body :: pyval
  raw_email_path :: string
  raw_received_at :: timestamp
  raw_status :: bool

record segregated_email =
  seg_email_id :: pyval
  seg_priority :: pyval
  seg_type :: pyval
  seg_resource_name :: pyval
  seg_trigger_name :: pyval
  seg_inserted_at :: timestamp
  seg_status :: bool

record summary_row =
  sum_email_id :: pyval
  sum_summary :: string
  sum_inserted_at :: timestamp
  sum_status :: bool

record jira_entry =
  jira_email_id :: pyval
  jiraticket_id :: string
  assigned_to :: pyval

record duplicate_email =
  dup_email_id :: pyval
  duplicate_email_id :: string
  dup_subject :: pyval
  dup_body :: pyval
  dup_sender :: pyval
  dup_received_at :: timestamp

record server =
  computername :: string
  server_group_name :: string
  description_function :: pyval

datatype MaintenanceStatus = SCHEDULED | ONGOING | COMPLETED

record maintenance_window =
  mw_server_group :: string
  mw_server_name :: pyval
  start_datetime :: timestamp
  end_datetime :: timestamp
  mw_status :: MaintenanceStatus

record job_row =
  job_id :: nat
  last_run_time :: "timestamp option"

record database =
  raw_emails :: "raw_email list"
  segregated :: "segregated_email list"
  summaries :: "summary_row list"
  jira_table :: "jira_entry list"
  duplicate_emails :: "duplicate_email list"
  servers :: "server list"
  parent_child_relationships :: "(string \<times> string) list"
  maintenance_windows :: "maintenance_window list"
  job_table :: "job_row list"

definition empty_db :: database where
  "empty_db = \<lparr>raw_emails = [], segregated = [], summaries = [], jira_table = [],
     duplicate_emails = [], servers = [], parent_child_relationships = [],
     maintenance_windows = [], job_table = []\<rparr>"

text \<open>
  \<open>datetime.strptime(datetime.now().strftime("%Y-%m-%d %H:%M:%S.%f")[0:23], ...)\<close>, the
  default of every \<open>inserted_at\<close> column: the clock cut to milliseconds.
\<close>

definition to_millis :: "timestamp \<Rightarrow> timestamp" where
  "to_millis t = (t div 1000) * 1000"

section \<open>Maintenance-window check\<close>

text \<open>
  \<open>mentenance_check.py\<close>, \<open>MaintenanceWindowService.is_in_maintenance\<close>. The machine and
  the parent of the first \<open>parent_child_relationships\<close> row that names it as child are
  looked up in \<open>maintenance_windows\<close>; the query filters on the stored \<open>status\<close> column.
  A NULL \<open>server_name\<close> is in no \<open>IN\<close> list.
\<close>

definition machines_to_check :: "database \<Rightarrow> string \<Rightarrow> string list" where
  "machines_to_check db machine_name =
     machine_name #
       (case filter (\<lambda>(p, c). c = machine_name) (parent_child_relationships db) of
          [] \<Rightarrow> []
        | (p, c) # rest \<Rightarrow> [p])"

definition is_in_maintenance :: "database \<Rightarrow> string \<Rightarrow> bool" where
  "is_in_maintenance db machine_name =
     (let mw_rows =
        filter (\<lambda>r. (case mw_server_name r of
                        PStr s \<Rightarrow> s \<in> set (machines_to_check db machine_name)
                      | _ \<Rightarrow> False)
                    \<and> mw_status r = ONGOING)
          (maintenance_windows db)
      in length mw_rows \<noteq> 0)"

text \<open>
  \<open>db_schema2.py\<close>, \<open>update_maintenance_status\<close>, the listener that runs on every row the
  ORM has loaded. A loaded row carries the enum member of its stored status; the
  listener compares it with the string \<open>MaintenanceStatus.COMPLETED.value\<close> (a member of a
  plain \<open>Enum\<close> never equals a string) and then assigns the value strings. The result is
  the \<open>status\<close> attribute of the loaded object; nothing is written back.
\<close>

datatype loaded_status = Member MaintenanceStatus | StatusText string

fun status_text :: "MaintenanceStatus \<Rightarrow> string" where
  "status_text SCHEDULED = ''Scheduled''"
| "status_text ONGOING = ''Ongoing''"
| "status_text COMPLETED = ''Completed''"

definition update_maintenance_status :: "timestamp \<Rightarrow> maintenance_window \<Rightarrow> loaded_status" where
  "update_maintenance_status now target =
     (let status = Member (mw_status target) in
      if status = StatusText (status_text COMPLETED) then status
      else if start_datetime target \<le> now \<and> end_datetime target \<ge> now
        then StatusText (status_text ONGOING)
      else if end_datetime target < now then StatusText (status_text COMPLETED)
      else if start_datetime target > now then StatusText (status_text SCHEDULED)
      else status)"

lemma update_maintenance_status_ongoing:
  "update_maintenance_status now r = StatusText ''Ongoing''
     \<longleftrightarrow> start_datetime r \<le> now \<and> now \<le> end_datetime r"
  by (auto simp: update_maintenance_status_def)

text \<open>
  What the check computes: it is true iff some maintenance window whose \<open>server_name\<close>
  is the machine itself, or the parent of the first containment row that names the
  machine as child, has the stored status \<open>ONGOING\<close>. The window's start and end times
  and the current time play no part.
\<close>

lemma is_in_maintenance_stored_status:
  "is_in_maintenance db machine
     \<longleftrightarrow> (\<exists>r \<in> set (maintenance_windows db).
            mw_status r = ONGOING
          \<and> (mw_server_name r = PStr machine
             \<or> (\<exists>p rest. filter (\<lambda>(p, c). c = machine) (parent_child_relationships db)
                            = (p, machine) # rest
                        \<and> mw_server_name r = PStr p)))"
proof -
  have len: "\<And>xs :: maintenance_window list. (length xs \<noteq> 0) = (\<exists>x. x \<in> set xs)"
    by (case_tac xs) auto
  have nm: "\<And>v S. (case v of PStr s \<Rightarrow> s \<in> S | _ \<Rightarrow> False) = (\<exists>s. v = PStr s \<and> s \<in> S)"
    by (case_tac v) auto
  show ?thesis
  proof (cases "filter (\<lambda>(p, c). c = machine) (parent_child_relationships db)")
    case Nil
    then show ?thesis
      unfolding is_in_maintenance_def Let_def len machines_to_check_def nm
      by auto
  next
    case (Cons pc rest)
    obtain p c where pc: "pc = (p, c)" by (cases pc)
    have "pc \<in> set (filter (\<lambda>(p, c). c = machine) (parent_child_relationships db))"
      using Cons by simp
    then have c: "c = machine" using pc by simp
    show ?thesis
      unfolding is_in_maintenance_def Let_def len machines_to_check_def nm
      using Cons pc c by auto
  qed
qed

lemma is_in_maintenance_needs_stored_ongoing:
  assumes "\<forall>r \<in> set (maintenance_windows db). mw_status r \<noteq> ONGOING"
  shows "\<not> is_in_maintenance db machine"
  using assms unfolding is_in_maintenance_stored_status by blast

text \<open>
  The windows of the failing run: both lie around the current time 3000 and belong to the
  machine asked for; one is stored with the column default \<open>SCHEDULED\<close>, the other with
  \<open>COMPLETED\<close>, as \<open>inset_mainten.py\<close> stores its window around the current time.
\<close>

definition window_now :: maintenance_window where
  "window_now = \<lparr>mw_server_group = ''OI-RDA'', mw_server_name = PStr ''hostA'',
     start_datetime = 1000, end_datetime = 5000, mw_status = SCHEDULED\<rparr>"

definition window_now_completed :: maintenance_window where
  "window_now_completed = \<lparr>mw_server_group = ''OI-RDA'', mw_server_name = PStr ''hostA'',
     start_datetime = 2000, end_datetime = 4000, mw_status = COMPLETED\<rparr>"

text \<open>
  Claim C6: the check is true iff the machine or its parent has a window that is Ongoing
  as computed from (start, end, now) at read time. The listener
  \<open>update_maintenance_status\<close> computes exactly that status on every loaded row, but the
  query of \<open>is_in_maintenance\<close> filters on the stored column before any row is loaded,
  and no code stores \<open>ONGOING\<close>. At time 3000 the machine \<open>hostA\<close> has two windows that
  the listener reads as Ongoing, and the check answers false.
\<close>

theorem is_in_maintenance_ignores_computed_status:
  "update_maintenance_status 3000 window_now = StatusText ''Ongoing''
   \<and> update_maintenance_status 3000 window_now_completed = StatusText ''Ongoing''
   \<and> \<not> is_in_maintenance
         (empty_db\<lparr>maintenance_windows := [window_now, window_now_completed]\<rparr>) ''hostA''"
  by (simp add: update_maintenance_status_def is_in_maintenance_def machines_to_check_def
      window_now_def window_now_completed_def empty_db_def)

section \<open>Dictionaries and database helpers\<close>

text \<open>
  \<open>d[k]\<close> raises \<open>KeyError\<close> on a missing key, \<open>d.get(k, default)\<close> does not; \<open>d[k] = v\<close>
  is \<open>AList.update\<close> (the key keeps its place, a new key goes last); \<open>d2 | d1\<close> is a copy
  of \<open>d2\<close> updated with the items of \<open>d1\<close>.
\<close>

definition bindE :: "exn + 'a \<Rightarrow> ('a \<Rightarrow> exn + 'b) \<Rightarrow> exn + 'b" where
  "bindE x f = (case x of Inl e \<Rightarrow> Inl e | Inr v \<Rightarrow> f v)"

lemma bindE_simps [simp]:
  "bindE (Inl e) f = Inl e"
  "bindE (Inr v) f = f v"
  by (simp_all add: bindE_def)

definition item :: "pydict \<Rightarrow> string \<Rightarrow> exn + pyval" where
  "item d k = (case map_of d k of None \<Rightarrow> Inl (KeyError k) | Some v \<Rightarrow> Inr v)"

definition dict_get :: "pydict \<Rightarrow> string \<Rightarrow> pyval \<Rightarrow> pyval" where
  "dict_get d k dflt = (case map_of d k of None \<Rightarrow> dflt | Some v \<Rightarrow> v)"

definition dict_union :: "pydict \<Rightarrow> pydict \<Rightarrow> pydict" where
  "dict_union d2 d1 = fold (\<lambda>(k, v). AList.update k v) d1 d2"

text \<open>
  \<open>db_functions.py\<close>. A row is found by its primary key \<open>email_id\<close>; NULL is no key.
  \<open>segregated_email\<close> and \<open>summary_table\<close> reference \<open>raw_emails.email_id\<close>, so an insert
  for an id with no raw email fails with an integrity error.
\<close>

definition find_segregated :: "database \<Rightarrow> pyval \<Rightarrow> segregated_email option" where
  "find_segregated db eid =
     (if eid = PNone then None else find (\<lambda>r. seg_email_id r = eid) (segregated db))"

definition find_summary :: "database \<Rightarrow> pyval \<Rightarrow> summary_row option" where
  "find_summary db eid =
     (if eid = PNone then None else find (\<lambda>r. sum_email_id r = eid) (summaries db))"

definition has_raw_email :: "database \<Rightarrow> pyval \<Rightarrow> bool" where
  "has_raw_email db eid = (eid \<noteq> PNone \<and> eid \<in> raw_email_id ` set (raw_emails db))"

text \<open>
  \<open>insert_or_update_segregation\<close>. On an existing row every item of \<open>data\<close> is set as an
  attribute (only the columns are persisted; a \<open>status\<close> that is not a boolean is refused
  by the column type when the row is flushed); a new row takes the four classification
  fields from \<open>data\<close> (each a \<open>KeyError\<close> when missing) and \<open>status = False\<close>.
\<close>

definition insert_or_update_segregation ::
  "timestamp \<Rightarrow> database \<Rightarrow> pyval \<Rightarrow> pydict \<Rightarrow> exn + database" where
  "insert_or_update_segregation now db email_id data =
     (case find_segregated db email_id of
        Some existing_segregation \<Rightarrow>
          (case dict_get data ''status'' (PBool (seg_status existing_segregation)) of
             PBool b \<Rightarrow>
               Inr (db\<lparr>segregated :=
                     map (\<lambda>r. if seg_email_id r = email_id
                               then r\<lparr>seg_priority := dict_get data ''priority'' (seg_priority r),
                                      seg_type := dict_get data ''type'' (seg_type r),
                                      seg_resource_name :=
                                        dict_get data ''resource_name'' (seg_resource_name r),
                                      seg_trigger_name :=
                                        dict_get data ''trigger_name'' (seg_trigger_name r),
                                      seg_status := b\<rparr>
                               else r)
                       (segregated db)\<rparr>)
           | _ \<Rightarrow> Inl (Raised ''StatementError''))
      | None \<Rightarrow>
          bindE (item data ''priority'') (\<lambda>priority.
          bindE (item data ''type'') (\<lambda>type.
          bindE (item data ''resource_name'') (\<lambda>resource_name.
          bindE (item data ''trigger_name'') (\<lambda>trigger_name.
            if has_raw_email db email_id then
              Inr (db\<lparr>segregated := segregated db @
                    [\<lparr>seg_email_id = email_id, seg_priority = priority, seg_type = type,
                      seg_resource_name = resource_name, seg_trigger_name = trigger_name,
                      seg_inserted_at = to_millis now, seg_status = False\<rparr>]\<rparr>)
            else Inl (Raised ''IntegrityError''))))))"

text \<open>
  \<open>insert_or_update_summary\<close>: an existing row gets the text and \<open>status = True\<close>; a new
  row gets the text and the \<open>status\<close> argument.
\<close>

definition insert_or_update_summary ::
  "timestamp \<Rightarrow> database \<Rightarrow> pyval \<Rightarrow> string \<Rightarrow> bool \<Rightarrow> exn + database" where
  "insert_or_update_summary now db email_id summary_text status =
     (case find_summary db email_id of
        Some existing_summary \<Rightarrow>
          Inr (db\<lparr>summaries :=
                map (\<lambda>r. if sum_email_id r = email_id
                          then r\<lparr>sum_summary := summary_text, sum_status := True\<rparr> else r)
                  (summaries db)\<rparr>)
      | None \<Rightarrow>
          if has_raw_email db email_id then
            Inr (db\<lparr>summaries := summaries db @
                  [\<lparr>sum_email_id = email_id, sum_summary = summary_text,
                    sum_inserted_at = to_millis now, sum_status = status\<rparr>]\<rparr>)
          else Inl (Raised ''IntegrityError''))"

text \<open>
  \<open>get_server_by_name\<close>: \<open>scalar_one_or_none\<close> raises when more than one row has the
  name (a host may be listed in several groups).
\<close>

definition get_server_by_name :: "database \<Rightarrow> pyval \<Rightarrow> exn + server option" where
  "get_server_by_name db target_name =
     (case filter (\<lambda>s. PStr (computername s) = target_name) (servers db) of
        [] \<Rightarrow> Inr None
      | [s] \<Rightarrow> Inr (Some s)
      | _ \<Rightarrow> Inl MultipleResultsFound)"

section \<open>Settings\<close>

text \<open>
  \<open>app/config.py\<close>: the queue names and the suppression window, with their defaults.
\<close>

record settings =
  CLASS_QUEUE_NAME :: string
  SUMM_QUEUE_NAME :: string
  JIRA_QUEUE_NAME :: string
  WINDOW :: int

definition default_settings :: settings where
  "default_settings = \<lparr>CLASS_QUEUE_NAME = ''my_class_queue'', SUMM_QUEUE_NAME = ''my_summ_queue'',
     JIRA_QUEUE_NAME = ''my_jira_queue'', WINDOW = 1\<rparr>"

text \<open>
  \<open>consumer.py\<close> line 32, the queue the classifier publishes to:
  \<open>SUMM_QUEUE_NAME = settings.JIRA_QUEUE_NAME\<close>. \<close>

definition classifier_SUMM_QUEUE_NAME :: "settings \<Rightarrow> string" where
  "classifier_SUMM_QUEUE_NAME st = JIRA_QUEUE_NAME st"

text \<open>
  \<open>consumer_summarization.py\<close> lines 28-29 and 218: the summarizer consumes
  \<open>settings.SUMM_QUEUE_NAME\<close> and publishes to \<open>settings.JIRA_QUEUE_NAME\<close>.
\<close>

definition summarizer_consumes :: "settings \<Rightarrow> string" where
  "summarizer_consumes st = SUMM_QUEUE_NAME st"

section \<open>The classifier\<close>

text \<open>
  \<open>consumer.py\<close>, \<open>process_message\<close>. The collaborators are parameters:
  \<^item> \<open>json_loads\<close>: \<open>json.loads(message.body.decode())\<close>;
  \<^item> \<open>first_pass\<close>: \<open>json_repair.loads(mp.process(body, path))\<close>, the first classification
    pass of the text generator over the message;
  \<^item> \<open>second_pass\<close>: \<open>process_trigger(trigger_name, ...)\<close>, \<open>None\<close> when it returned \<open>None\<close>
    (no row found), otherwise \<open>json_repair.loads\<close> of the text it returned;
  \<^item> \<open>clock\<close>: the current time;
  \<^item> \<open>broker_connect\<close>: the exception of \<open>connect_robust\<close>, \<open>channel()\<close> or
    \<open>declare_queue\<close>, if any; \<open>publish_ok\<close>: the publish inside \<open>send_data_to_queue\<close> went
    through (it logs and swallows every exception otherwise);
  \<^item> \<open>retry\<close>: the broker as the retry handler finds it.
\<close>

datatype pyjson = JDict pydict | JOther

record classifier_env =
  json_loads :: "string \<Rightarrow> exn + pyjson"
  first_pass :: "pydict \<Rightarrow> exn + pyjson"
  second_pass :: "pyval \<Rightarrow> exn + pyjson option"
  clock :: timestamp
  broker_connect :: "exn option"
  publish_ok :: bool
  retry :: retry_env

text \<open>
  The pattern \<open>machine\s+shut\s*down\s+gracefully\<close> with \<open>re.IGNORECASE\<close>. Each run of
  whitespace is followed by a letter, so the greedy match of the run is the only one.
  Among the code points up to U+00FF a letter of the pattern matches itself and its
  capital, and nothing else.
\<close>

definition literal_ci :: "string \<Rightarrow> string \<Rightarrow> string option" where
  "literal_ci lit s =
     (if py_lower (take (length lit) s) = lit then Some (drop (length lit) s) else None)"

definition spaces1 :: "string \<Rightarrow> string option" where
  "spaces1 s = (case s of c # cs \<Rightarrow> if isspace c then Some (dropWhile isspace cs) else None
                | [] \<Rightarrow> None)"

definition spaces0 :: "string \<Rightarrow> string option" where
  "spaces0 s = Some (dropWhile isspace s)"

definition graceful_match_at :: "string \<Rightarrow> bool" where
  "graceful_match_at s =
     (Option.bind (Option.bind (Option.bind (Option.bind (Option.bind (Option.bind
        (literal_ci ''machine'' s) spaces1) (literal_ci ''shut'')) spaces0)
        (literal_ci ''down'')) spaces1) (literal_ci ''gracefully'') \<noteq> None)"

fun graceful_search :: "string \<Rightarrow> bool" where
  "graceful_search [] = False"
| "graceful_search (c # cs) = (graceful_match_at (c # cs) \<or> graceful_search cs)"

text \<open>Lines 114-116: the override of the graceful-shutdown case.\<close>

definition graceful_override :: "pydict \<Rightarrow> pydict" where
  "graceful_override output1 =
     AList.update ''recommended_action'' (PStr ''N/A'')
       (AList.update ''type'' (PStr ''informational'')
         (AList.update ''priority'' (PStr ''informational'') output1))"

text \<open>\<open>d[k] = d[k].strip()\<close>.\<close>

definition strip_item :: "pydict \<Rightarrow> string \<Rightarrow> exn + pydict" where
  "strip_item d k =
     bindE (item d k) (\<lambda>v. case v of PStr s \<Rightarrow> Inr (AList.update k (PStr (py_strip s)) d)
                               | _ \<Rightarrow> Inl AttributeError)"

text \<open>Line 157: the server's description put in front of the generated summary.\<close>

definition prepend_description :: "server \<Rightarrow> pydict \<Rightarrow> exn + pydict" where
  "prepend_description server_obj output1 =
     bindE (item output1 ''generated_summary'') (\<lambda>g. case g of
        PStr t \<Rightarrow>
          Inr (AList.update ''generated_summary''
                 (PStr (''Found description: '' @ py_str (description_function server_obj)
                        @ '' '' @ [CHR 0x0A] @ ''generated summary:'' @ t)) output1)
      | _ \<Rightarrow> Inl TypeError)"

text \<open>
  What lines 89-182 end in: the handler has acknowledged and returned (\<open>Finished\<close>), or
  goes on to the maintenance check with the dictionary \<open>output\<close>.
\<close>

datatype resolution = Finished | Resolved pydict

text \<open>Lines 99-167: no \<open>SegregatedEmail\<close> row exists for the message.\<close>

definition classify_fresh ::
  "classifier_env \<Rightarrow> pydict \<Rightarrow> database \<Rightarrow> (exn + resolution) \<times> database" where
  "classify_fresh env body db =
     (case first_pass env body of
        Inl e \<Rightarrow> (Inl e, db)
      | Inr JOther \<Rightarrow> (Inl TypeError, db)
      | Inr (JDict raw1) \<Rightarrow>
          (case bindE (strip_item raw1 ''trigger_name'') (\<lambda>a.
                bindE (strip_item a ''resource_name'') (\<lambda>b.
                bindE (item body ''subject'') (\<lambda>subject.
                  Inr (AList.update ''subject'' subject b)))) of
             Inl e \<Rightarrow> (Inl e, db)
           | Inr output1 \<Rightarrow>
               if graceful_search (py_str (dict_get body ''subject'' (PStr [])) @ '' ''
                                   @ py_str (dict_get body ''content'' (PStr [])))
               then
                 (case item body ''email_id'' of
                    Inl e \<Rightarrow> (Inl e, db)
                  | Inr email_id \<Rightarrow>
                      (case insert_or_update_segregation (clock env) db email_id
                              (graceful_override output1) of
                         Inl e \<Rightarrow> (Inl e, db)
                       | Inr db1 \<Rightarrow>
                           (case insert_or_update_segregation (clock env) db1 email_id
                                   [(''status'', PBool True)] of
                              Inl e \<Rightarrow> (Inl e, db1)
                            | Inr db2 \<Rightarrow> (Inr Finished, db2))))
               else
                 (case second_pass env (dict_get output1 ''trigger_name'' PNone) of
                    Inl e \<Rightarrow> (Inl e, db)
                  | Inr None \<Rightarrow> (Inl TypeError, db)
                  | Inr (Some parsed2) \<Rightarrow>
                      (case bindE (get_server_by_name db (dict_get output1 ''resource_name'' PNone))
                              (\<lambda>server_obj. case server_obj of
                                  None \<Rightarrow> Inr output1
                                | Some s \<Rightarrow> prepend_description s output1) of
                         Inl e \<Rightarrow> (Inl e, db)
                       | Inr output1b \<Rightarrow>
                           (case parsed2 of
                              JOther \<Rightarrow> (Inl TypeError, db)
                            | JDict output2 \<Rightarrow>
                                (case bindE (item body ''email_id'') (\<lambda>email_id.
                                        insert_or_update_segregation (clock env) db email_id
                                          (dict_union output2 output1b)) of
                                   Inl e \<Rightarrow> (Inl e, db)
                                 | Inr db1 \<Rightarrow>
                                     (Inr (Resolved (dict_union output2 output1b)), db1)))))))"

text \<open>
  \<open>s.split(sep)\<close> for a separator that is not empty: the pieces between the
  occurrences of \<open>sep\<close>, found left to right.
\<close>

function split_on :: "string \<Rightarrow> string \<Rightarrow> string \<Rightarrow> string list" where
  "split_on sep cur [] = [rev cur]"
| "split_on sep cur (c # cs) =
     (if sep \<noteq> [] \<and> take (length sep) (c # cs) = sep
      then rev cur # split_on sep [] (drop (length sep) (c # cs))
      else split_on sep (c # cur) cs)"
  by pat_completeness auto
termination
  by (relation "measure (\<lambda>(sep, cur, s). length s)") (auto simp: neq_Nil_conv)

definition RECOMMENDED_SEP :: string where
  "RECOMMENDED_SEP = CHR 0x0A # '' Recommended Actions:''"

text \<open>
  Lines 172-182: a \<open>SegregatedEmail\<close> row exists. With \<open>status\<close> true the message is
  acknowledged; otherwise the summary text is read back from \<open>SummaryTable\<close> and cut at
  the separator (a text without the separator is cut into its characters).
\<close>

definition from_existing_row ::
  "segregated_email \<Rightarrow> pydict \<Rightarrow> database \<Rightarrow> (exn + resolution) \<times> database" where
  "from_existing_row query body db =
     (let output = [(''priority'', seg_priority query), (''trigger_name'', seg_trigger_name query),
                    (''resource_name'', seg_resource_name query), (''type'', seg_type query),
                    (''status'', PBool (seg_status query))] in
      if seg_status query then (Inr Finished, db)
      else
        (case find_summary db (dict_get body ''email_id'' PNone) of
           None \<Rightarrow> (Inl AttributeError, db)
         | Some summary_query \<Rightarrow>
             (let summary1 = sum_summary summary_query;
                  l = (if length (split_on RECOMMENDED_SEP [] summary1) > 1
                       then split_on RECOMMENDED_SEP [] summary1
                       else map (\<lambda>c. [c]) summary1) in
              case l of
                [] \<Rightarrow> (Inl IndexError, db)
              | g # rest \<Rightarrow>
                  (Inr (Resolved
                     (AList.update ''recommended_action''
                        (case rest of [] \<Rightarrow> PNone | r # others \<Rightarrow> PStr r)
                        (AList.update ''generated_summary'' (PStr g) output))), db))))"

definition resolve ::
  "classifier_env \<Rightarrow> pydict \<Rightarrow> database \<Rightarrow> (exn + resolution) \<times> database" where
  "resolve env body db =
     (case find_segregated db (dict_get body ''email_id'' PNone) of
        None \<Rightarrow> classify_fresh env body db
      | Some query \<Rightarrow> from_existing_row query body db)"

text \<open>The maintenance check on \<open>output["resource_name"]\<close>; NULL names no machine.\<close>

definition in_maintenance :: "database \<Rightarrow> pyval \<Rightarrow> bool" where
  "in_maintenance db resource_name =
     (case resource_name of PStr s \<Rightarrow> is_in_maintenance db s | _ \<Rightarrow> False)"

text \<open>Lines 199-206: the payload for the next queue.\<close>

definition enrich :: "pydict \<Rightarrow> pydict \<Rightarrow> exn + pydict" where
  "enrich body output =
     bindE (item body ''email_id'') (\<lambda>email_id.
     bindE (item body ''content'') (\<lambda>content.
     bindE (item body ''subject'') (\<lambda>subject.
     bindE (item body ''sender_address'') (\<lambda>sender.
     bindE (item body ''received_time'') (\<lambda>received_time.
     bindE (item output ''generated_summary'') (\<lambda>g. case g of
        PStr gs \<Rightarrow>
          bindE (item output ''recommended_action'') (\<lambda>r. case r of
             PStr ra \<Rightarrow>
               bindE (item body ''msg_path'') (\<lambda>path.
                 Inr (AList.update ''path'' path
                     (AList.update ''generated_summary'' (PStr (gs @ RECOMMENDED_SEP @ ra))
                     (AList.update ''content'' content
                     (AList.update ''timestamp'' received_time
                     (AList.update ''sender'' sender
                     (AList.update ''subject'' subject
                     (AList.update ''body'' content
                     (AList.update ''email_id'' email_id output)))))))))
           | _ \<Rightarrow> Inl TypeError)
      | _ \<Rightarrow> Inl TypeError))))))"

text \<open>
  Lines 207-246: connect, publish, acknowledge, then the two upserts. Every exception in
  this block is logged and swallowed; what was done before it stays done.
\<close>

definition enqueue ::
  "classifier_env \<Rightarrow> settings \<Rightarrow> pydict \<Rightarrow> database \<Rightarrow> action list \<times> database" where
  "enqueue env st output db =
     (case broker_connect env of
        Some e \<Rightarrow> ([], db)
      | None \<Rightarrow>
          (let acts = (if publish_ok env
                       then [Publish [] (classifier_SUMM_QUEUE_NAME st) (Json output) []]
                       else []) @ [Ack] in
           case insert_or_update_segregation (clock env) db (dict_get output ''email_id'' PNone)
                  [(''status'', PBool True)] of
             Inl e \<Rightarrow> (acts, db)
           | Inr db1 \<Rightarrow>
               (case insert_or_update_summary (clock env) db1
                       (dict_get output ''email_id'' PNone)
                       (case dict_get output ''generated_summary'' PNone of
                          PStr s \<Rightarrow> s | v \<Rightarrow> py_str v)
                       True of
                  Inl e \<Rightarrow> (acts, db1)
                | Inr db2 \<Rightarrow> (acts, db2))))"

text \<open>Lines 185-249: maintenance check, priority test, hand-over.\<close>

definition dispatch ::
  "classifier_env \<Rightarrow> settings \<Rightarrow> pydict \<Rightarrow> pydict \<Rightarrow> database
     \<Rightarrow> (exn + action list) \<times> database" where
  "dispatch env st body output db =
     (case item output ''resource_name'' of
        Inl e \<Rightarrow> (Inl e, db)
      | Inr resource_name \<Rightarrow>
          if in_maintenance db resource_name then (Inr [Ack], db)
          else
            (case item output ''priority'' of
               Inl e \<Rightarrow> (Inl e, db)
             | Inr priority \<Rightarrow>
                 if priority = PStr ''P1'' \<or> priority = PStr ''P2'' then
                   (case enrich body output of
                      Inl e \<Rightarrow> (Inl e, db)
                    | Inr payload \<Rightarrow>
                        (case enqueue env st payload db of (acts, db1) \<Rightarrow> (Inr acts, db1)))
                 else (Inr [Ack], db)))"

text \<open>
  The \<open>try\<close> block: its broker actions, or the exception that reaches the \<open>except\<close>
  block together with whether \<open>body\<close> was bound.
\<close>

definition try_block ::
  "classifier_env \<Rightarrow> settings \<Rightarrow> message \<Rightarrow> database
     \<Rightarrow> ((exn \<times> bool) + action list) \<times> database" where
  "try_block env st m db =
     (case json_loads env (msg_body m) of
        Inl e \<Rightarrow> (Inl (e, False), db)
      | Inr JOther \<Rightarrow> (Inl (AttributeError, True), db)
      | Inr (JDict body) \<Rightarrow>
          (case resolve env body db of
             (Inl e, db1) \<Rightarrow> (Inl (e, True), db1)
           | (Inr Finished, db1) \<Rightarrow> (Inr [Ack], db1)
           | (Inr (Resolved output), db1) \<Rightarrow>
               (case dispatch env st body output db1 of
                  (Inl e, db2) \<Rightarrow> (Inl (e, True), db2)
                | (Inr acts, db2) \<Rightarrow> (Inr acts, db2))))"

record outcome =
  out_db :: database
  out_actions :: "action list"
  out_escaped :: "exn option"

definition process_message ::
  "classifier_env \<Rightarrow> settings \<Rightarrow> message \<Rightarrow> database \<Rightarrow> outcome" where
  "process_message env st m db =
     (case try_block env st m db of
        (Inr acts, db1) \<Rightarrow> \<lparr>out_db = db1, out_actions = acts, out_escaped = None\<rparr>
      | (Inl (e, bound), db1) \<Rightarrow>
          (case classifier_on_failure (retry env) bound m e of
             (acts, esc) \<Rightarrow> \<lparr>out_db = db1, out_actions = acts, out_escaped = esc\<rparr>))"

lemma find_append_none:
  "find P xs = None \<Longrightarrow> find P (xs @ ys) = find P ys"
  by (induction xs) (auto split: if_splits)

lemma find_append_some:
  "find P xs = Some x \<Longrightarrow> find P (xs @ ys) = Some x"
  by (induction xs) (auto split: if_splits)

lemma find_seg_map:
  assumes "\<And>r. seg_email_id (f r) = seg_email_id r"
  shows "find (\<lambda>r. seg_email_id r = k) (map (\<lambda>r. if seg_email_id r = k then f r else r) xs)
       = map_option f (find (\<lambda>r. seg_email_id r = k) xs)"
  using assms by (induction xs) auto

lemma find_sum_map:
  assumes "\<And>r. sum_email_id (f r) = sum_email_id r"
  shows "find (\<lambda>r. sum_email_id r = k) (map (\<lambda>r. if sum_email_id r = k then f r else r) xs)
       = map_option f (find (\<lambda>r. sum_email_id r = k) xs)"
  using assms by (induction xs) auto

lemma item_Some [simp]: "map_of d k = Some v \<Longrightarrow> item d k = Inr v"
  by (simp add: item_def)

lemma item_None [simp]: "map_of d k = None \<Longrightarrow> item d k = Inl (KeyError k)"
  by (simp add: item_def)

lemma dict_get_Some [simp]: "map_of d k = Some v \<Longrightarrow> dict_get d k dflt = v"
  by (simp add: dict_get_def)

text \<open>What the upserts leave alone, and what they establish.\<close>

lemma segregation_frame:
  assumes "insert_or_update_segregation t db eid d = Inr db1"
  shows "raw_emails db1 = raw_emails db" "summaries db1 = summaries db"
    "jira_table db1 = jira_table db" "duplicate_emails db1 = duplicate_emails db"
    "servers db1 = servers db"
    "parent_child_relationships db1 = parent_child_relationships db"
    "maintenance_windows db1 = maintenance_windows db" "job_table db1 = job_table db"
  using assms
  by (auto simp: insert_or_update_segregation_def bindE_def
      split: option.splits pyval.splits sum.splits if_splits)

lemma summary_frame:
  assumes "insert_or_update_summary t db eid s b = Inr db1"
  shows "raw_emails db1 = raw_emails db" "segregated db1 = segregated db"
    "jira_table db1 = jira_table db" "duplicate_emails db1 = duplicate_emails db"
    "servers db1 = servers db"
    "parent_child_relationships db1 = parent_child_relationships db"
    "maintenance_windows db1 = maintenance_windows db" "job_table db1 = job_table db"
  using assms
  by (auto simp: insert_or_update_summary_def split: option.splits if_splits)

lemma segregation_mark_status:
  assumes "find_segregated db eid = Some row"
  shows "insert_or_update_segregation t db eid [(''status'', PBool True)]
       = Inr (db\<lparr>segregated := map (\<lambda>r. if seg_email_id r = eid then r\<lparr>seg_status := True\<rparr> else r)
                                 (segregated db)\<rparr>)"
  using assms by (simp add: insert_or_update_segregation_def dict_get_def)

lemma segregation_marked_found:
  assumes "find_segregated db eid = Some row"
  shows "find_segregated
           (db\<lparr>segregated := map (\<lambda>r. if seg_email_id r = eid then r\<lparr>seg_status := True\<rparr> else r)
                                 (segregated db)\<rparr>) eid
       = Some (row\<lparr>seg_status := True\<rparr>)"
  using assms by (auto simp: find_segregated_def find_seg_map split: if_splits)

lemma segregation_insert:
  assumes "find_segregated db eid = None" "has_raw_email db eid"
    "map_of d ''priority'' = Some p" "map_of d ''type'' = Some ty"
    "map_of d ''resource_name'' = Some rn" "map_of d ''trigger_name'' = Some tn"
  shows "insert_or_update_segregation t db eid d
       = Inr (db\<lparr>segregated := segregated db @
               [\<lparr>seg_email_id = eid, seg_priority = p, seg_type = ty, seg_resource_name = rn,
                 seg_trigger_name = tn, seg_inserted_at = to_millis t, seg_status = False\<rparr>]\<rparr>)"
  using assms by (simp add: insert_or_update_segregation_def)

lemma segregation_inserted_found:
  assumes "find_segregated db eid = None" "eid \<noteq> PNone" "seg_email_id row = eid"
  shows "find_segregated (db\<lparr>segregated := segregated db @ [row]\<rparr>) eid = Some row"
  using assms by (simp add: find_segregated_def find_append_none)

lemma segregation_result_found:
  assumes "insert_or_update_segregation t db eid d = Inr db1"
  shows "\<exists>row. find_segregated db1 eid = Some row"
proof (cases "find_segregated db eid")
  case None
  with assms obtain row where db1: "db1 = db\<lparr>segregated := segregated db @ [row]\<rparr>"
    and row: "seg_email_id row = eid" and raw: "has_raw_email db eid"
    by (auto simp: insert_or_update_segregation_def bindE_def split: sum.splits if_splits)
  from raw have "eid \<noteq> PNone" by (simp add: has_raw_email_def)
  with None row db1 show ?thesis by (simp add: segregation_inserted_found)
next
  case (Some row)
  with assms obtain f where db1: "db1 = db\<lparr>segregated := map (\<lambda>r. if seg_email_id r = eid then f r else r) (segregated db)\<rparr>"
    and f: "\<And>r. seg_email_id (f r) = seg_email_id r"
    by (auto simp: insert_or_update_segregation_def split: pyval.splits) 
  from Some have "eid \<noteq> PNone" by (auto simp: find_segregated_def split: if_splits)
  with Some db1 f show ?thesis by (auto simp: find_segregated_def find_seg_map)
qed

lemma summary_upsert_found:
  assumes "find_summary db eid \<noteq> None \<or> has_raw_email db eid"
  shows "\<exists>db1 srow. insert_or_update_summary t db eid s True = Inr db1
           \<and> find_summary db1 eid = Some srow \<and> sum_status srow \<and> sum_summary srow = s
           \<and> segregated db1 = segregated db"
proof (cases "find_summary db eid")
  case None
  with assms have raw: "has_raw_email db eid" by simp
  then have "eid \<noteq> PNone" by (simp add: has_raw_email_def)
  with None raw show ?thesis
    by (auto simp: insert_or_update_summary_def find_summary_def find_append_none)
next
  case (Some row)
  then have "eid \<noteq> PNone" by (auto simp: find_summary_def split: if_splits)
  with Some show ?thesis
    by (auto simp: insert_or_update_summary_def find_summary_def find_sum_map)
qed


lemma classify_fresh_resolved:
  assumes "classify_fresh env body db = (Inr (Resolved output), db1)"
  shows "\<exists>d eid. map_of body ''email_id'' = Some eid
           \<and> insert_or_update_segregation (clock env) db eid d = Inr db1"
  using assms
  by (auto simp: classify_fresh_def item_def bindE_def
      split: sum.splits pyjson.splits option.splits if_splits)

lemma classify_fresh_duplicates:
  assumes "classify_fresh env body db = (r, db1)"
  shows "duplicate_emails db1 = duplicate_emails db"
  using assms
  by (auto simp: classify_fresh_def bindE_def
      split: sum.splits pyjson.splits option.splits if_splits
      dest!: segregation_frame(4))

lemma from_existing_row_db:
  assumes "from_existing_row q body db = (r, db1)"
  shows "db1 = db"
  using assms
  by (auto simp: from_existing_row_def Let_def split: option.splits list.splits if_splits)

lemma from_existing_row_summary:
  assumes "from_existing_row q body db = (Inr (Resolved output), db1)"
  shows "find_summary db (dict_get body ''email_id'' PNone) \<noteq> None"
  using assms
  by (auto simp: from_existing_row_def Let_def split: option.splits list.splits if_splits)

lemma resolve_duplicates:
  assumes "resolve env body db = (r, db1)"
  shows "duplicate_emails db1 = duplicate_emails db"
  using assms
  by (auto simp: resolve_def split: option.splits
      dest!: classify_fresh_duplicates from_existing_row_db)

lemma resolve_rows:
  assumes "resolve env body db = (Inr (Resolved output), db1)"
  shows "(\<exists>row. find_segregated db1 (dict_get body ''email_id'' PNone) = Some row)
       \<and> (find_summary db1 (dict_get body ''email_id'' PNone) \<noteq> None
          \<or> has_raw_email db1 (dict_get body ''email_id'' PNone))"
proof (cases "find_segregated db (dict_get body ''email_id'' PNone)")
  case None
  with assms have cf: "classify_fresh env body db = (Inr (Resolved output), db1)"
    by (simp add: resolve_def)
  then obtain d eid where eid: "map_of body ''email_id'' = Some eid"
    and ins: "insert_or_update_segregation (clock env) db eid d = Inr db1"
    using classify_fresh_resolved by blast
  from eid have g: "dict_get body ''email_id'' PNone = eid" by simp
  from None g ins have "has_raw_email db eid"
    by (auto simp: insert_or_update_segregation_def bindE_def split: sum.splits if_splits)
  then have "has_raw_email db1 eid"
    using segregation_frame(1) [OF ins] by (simp add: has_raw_email_def)
  then show ?thesis using segregation_result_found [OF ins] g by simp
next
  case (Some q)
  with assms have fe: "from_existing_row q body db = (Inr (Resolved output), db1)"
    by (simp add: resolve_def)
  then show ?thesis
    using Some from_existing_row_db [OF fe] from_existing_row_summary [OF fe] by simp
qed

lemma enqueue_duplicates:
  assumes "enqueue env st payload db = (acts, db1)"
  shows "duplicate_emails db1 = duplicate_emails db"
  using assms
  by (auto simp: enqueue_def Let_def split: option.splits sum.splits
      dest!: segregation_frame(4) summary_frame(4))

lemma dispatch_duplicates:
  assumes "dispatch env st body output db = (r, db1)"
  shows "duplicate_emails db1 = duplicate_emails db"
  using assms
  by (auto simp: dispatch_def split: sum.splits if_splits prod.splits
      dest!: enqueue_duplicates)

lemma try_block_duplicates:
  assumes "try_block env st m db = (r, db1)"
  shows "duplicate_emails db1 = duplicate_emails db"
  using assms
  by (auto simp: try_block_def split: sum.splits pyjson.splits prod.splits resolution.splits
      dest!: resolve_duplicates dispatch_duplicates)

text \<open>
  \<open>db_functions.py\<close>, \<open>get_email_id_within_hour\<close>: the first \<open>SegregatedEmail\<close> row with
  the trigger and resource whose \<open>inserted_at\<close> lies in the last \<open>WINDOW\<close> hours and whose
  priority is not \<open>informational\<close> (a NULL priority never compares unequal); when one is
  found, the raw email \<open>delete_email\<close> is deleted, and with it its rows in the stage
  tables. The classifier's call of this function is commented out (\<open>consumer.py\<close> lines
  129-144).
\<close>

definition HOUR :: int where
  "HOUR = 3600000000"

definition get_email_id_within_hour ::
  "settings \<Rightarrow> timestamp \<Rightarrow> database \<Rightarrow> pyval \<Rightarrow> pyval \<Rightarrow> pyval \<Rightarrow> pyval option \<times> database" where
  "get_email_id_within_hour st now db target_trigger target_resource delete_email =
     (let window = WINDOW st;
          target_timestamp = to_millis now;
          one_hour_ago = (if window \<noteq> 0 then target_timestamp - window * HOUR
                          else target_timestamp - HOUR);
          result = map_option seg_email_id
            (find (\<lambda>r. seg_trigger_name r = target_trigger
                      \<and> seg_resource_name r = target_resource
                      \<and> seg_inserted_at r \<le> target_timestamp
                      \<and> seg_inserted_at r \<ge> one_hour_ago
                      \<and> seg_priority r \<noteq> PNone \<and> seg_priority r \<noteq> PStr ''informational'')
               (segregated db))
      in case result of
           None \<Rightarrow> (None, db)
         | Some found \<Rightarrow>
             if found = PStr [] \<or> delete_email = PNone then (Some found, db)
             else (Some found,
                   db\<lparr>raw_emails := filter (\<lambda>r. raw_email_id r \<noteq> delete_email) (raw_emails db),
                      segregated := filter (\<lambda>r. seg_email_id r \<noteq> delete_email) (segregated db),
                      summaries := filter (\<lambda>r. sum_email_id r \<noteq> delete_email) (summaries db),
                      jira_table := filter (\<lambda>r. jira_email_id r \<noteq> delete_email) (jira_table db)\<rparr>))"

text \<open>
  A run of the classifier: mail \<open>e2\<close> (High CPU on hostA) arrives 30 minutes after mail
  \<open>e1\<close>, which has the same trigger and resource and was classified P1.
\<close>

definition example_body :: pydict where
  "example_body = [(''email_id'', PStr ''e2''), (''sender_address'', PStr ''controlup@example.org''),
            (''content'', PStr ''CPU above 90''), (''subject'', PStr ''High CPU on hostA''),
            (''received_time'', PStr ''2025-01-07T10:30:00+00:00''),
            (''msg_path'', PStr ''/mail/e2.msg'')]"

definition example_env :: classifier_env where
  "example_env = \<lparr>json_loads = (\<lambda>b. Inr (JDict example_body)),
            first_pass = (\<lambda>b. Inr (JDict [(''trigger_name'', PStr '' High CPU ''),
                                           (''resource_name'', PStr ''hostA''),
                                           (''generated_summary'', PStr ''CPU is high'')])),
            second_pass = (\<lambda>t. Inr (Some (JDict [(''trigger_name'', PStr ''High CPU''),
                                                  (''priority'', PStr ''P1''),
                                                  (''type'', PStr ''actionable''),
                                                  (''recommended_action'', PStr ''Restart'')]))),
            clock = 7200000000,
            broker_connect = None, publish_ok = True, retry = broker_up\<rparr>"

definition example_raw :: "string \<Rightarrow> raw_email" where
  "example_raw i = \<lparr>raw_email_id = PStr i, raw_sender = PStr ''controlup@example.org'',
             raw_subject = PStr ''High CPU on hostA'', raw_body = PStr ''CPU above 90'',
             raw_email_path = ''/mail/x.msg'', raw_received_at = 0, raw_status = True\<rparr>"

definition example_prior :: segregated_email where
  "example_prior = \<lparr>seg_email_id = PStr ''e1'', seg_priority = PStr ''P1'',
                     seg_type = PStr ''actionable'', seg_resource_name = PStr ''hostA'',
                     seg_trigger_name = PStr ''High CPU'', seg_inserted_at = 5400000000,
                     seg_status = True\<rparr>"

definition example_db :: database where
  "example_db = empty_db\<lparr>raw_emails := [example_raw ''e1'', example_raw ''e2''],
                  segregated := [example_prior]\<rparr>"

definition example_message :: message where
  "example_message = \<lparr>msg_body = ''{}'', msg_headers = [], routing_key = ''my_class_queue''\<rparr>"

definition example_payload :: pydict where
  "example_payload =
     [(''trigger_name'', PStr ''High CPU''), (''priority'', PStr ''P1''),
      (''type'', PStr ''actionable''), (''recommended_action'', PStr ''Restart''),
      (''resource_name'', PStr ''hostA''),
      (''generated_summary'', PStr (''CPU is high'' @ RECOMMENDED_SEP @ ''Restart'')),
      (''subject'', PStr ''High CPU on hostA''), (''email_id'', PStr ''e2''),
      (''body'', PStr ''CPU above 90''), (''sender'', PStr ''controlup@example.org''),
      (''timestamp'', PStr ''2025-01-07T10:30:00+00:00''), (''content'', PStr ''CPU above 90''),
      (''path'', PStr ''/mail/e2.msg'')]"

definition example_output :: pydict where
  "example_output =
     [(''trigger_name'', PStr ''High CPU''), (''priority'', PStr ''P1''),
      (''type'', PStr ''actionable''), (''recommended_action'', PStr ''Restart''),
      (''resource_name'', PStr ''hostA''), (''generated_summary'', PStr ''CPU is high''),
      (''subject'', PStr ''High CPU on hostA'')]"

definition example_new_row :: segregated_email where
  "example_new_row = \<lparr>seg_email_id = PStr ''e2'', seg_priority = PStr ''P1'',
     seg_type = PStr ''actionable'', seg_resource_name = PStr ''hostA'',
     seg_trigger_name = PStr ''High CPU'', seg_inserted_at = 7200000000, seg_status = False\<rparr>"

lemma example_resolve:
  "resolve example_env example_body example_db
     = (Inr (Resolved example_output), example_db\<lparr>segregated := [example_prior, example_new_row]\<rparr>)"
  by code_simp

lemma map_unfound:
  "find (\<lambda>r. seg_email_id r = eid) rs = None \<Longrightarrow>
     map (\<lambda>r. if seg_email_id r = eid then f r else r) rs = rs"
  by (induction rs) (auto split: if_splits)

lemma enrich_payload:
  assumes "map_of body ''email_id'' = Some eid" "map_of body ''content'' = Some content"
    "map_of body ''subject'' = Some subject" "map_of body ''sender_address'' = Some sender"
    "map_of body ''received_time'' = Some received" "map_of body ''msg_path'' = Some path"
    "map_of output ''generated_summary'' = Some (PStr gs)"
    "map_of output ''recommended_action'' = Some (PStr ra)"
  shows "enrich body output =
     Inr (AList.update ''path'' path
         (AList.update ''generated_summary'' (PStr (gs @ RECOMMENDED_SEP @ ra))
         (AList.update ''content'' content
         (AList.update ''timestamp'' received
         (AList.update ''sender'' sender
         (AList.update ''subject'' subject
         (AList.update ''body'' content
         (AList.update ''email_id'' eid output))))))))"
  using assms by (simp add: enrich_def)

text \<open>
  Claim C1, as stated: the enriched payload is enqueued to Q2, the queue the summarizer
  consumes. It is not: the classifier's \<open>SUMM_QUEUE_NAME\<close> is bound to
  \<open>settings.JIRA_QUEUE_NAME\<close>, so with the default settings the payload goes to
  \<open>my_jira_queue\<close>, while the summarizer consumes \<open>my_summ_queue\<close>.
\<close>

theorem classifier_queue_counterexample:
  "out_actions (process_message example_env default_settings example_message example_db)
     = [Publish [] ''my_jira_queue'' (Json example_payload) [], Ack]
   \<and> summarizer_consumes default_settings = ''my_summ_queue''"
  by code_simp

text \<open>
  Claim C1, amended. For a classifier message that decodes to a dictionary with the six
  fields of the ingester, whose resolution (a fresh classification, or the stored row
  with status false) has priority P1 or P2, a resource that is not under maintenance
  and string values for \<open>generated_summary\<close> and \<open>recommended_action\<close>, and with the
  broker reachable: the classifier computes the summary text
  \<open>generated_summary + "\n Recommended Actions:" + recommended_action\<close>, publishes the
  enriched payload to the queue named \<open>settings.JIRA_QUEUE_NAME\<close> (the actioner's queue;
  the summarizer is bypassed), acknowledges the message, and leaves \<open>SegregatedEmail\<close>
  with status true and \<open>SummaryTable\<close> with the summary text and status true.
\<close>

theorem p1_p2_enqueued:
  assumes loads: "json_loads env (msg_body m) = Inr (JDict body)"
    and resolved: "resolve env body db = (Inr (Resolved output), db1)"
    and priority: "map_of output ''priority'' = Some (PStr ''P1'')
                 \<or> map_of output ''priority'' = Some (PStr ''P2'')"
    and resource: "map_of output ''resource_name'' = Some rn" "\<not> in_maintenance db1 rn"
    and body: "map_of body ''email_id'' = Some eid" "map_of body ''content'' = Some content"
      "map_of body ''subject'' = Some subject" "map_of body ''sender_address'' = Some sender"
      "map_of body ''received_time'' = Some received" "map_of body ''msg_path'' = Some path"
    and texts: "map_of output ''generated_summary'' = Some (PStr gs)"
      "map_of output ''recommended_action'' = Some (PStr ra)"
    and broker: "broker_connect env = None" "publish_ok env"
  shows "\<exists>payload row srow.
           enrich body output = Inr payload
         \<and> map_of payload ''generated_summary'' = Some (PStr (gs @ RECOMMENDED_SEP @ ra))
         \<and> map_of payload ''email_id'' = Some eid
         \<and> out_actions (process_message env st m db)
             = [Publish [] (JIRA_QUEUE_NAME st) (Json payload) [], Ack]
         \<and> out_escaped (process_message env st m db) = None
         \<and> find_segregated (out_db (process_message env st m db)) eid = Some row
         \<and> seg_status row
         \<and> find_summary (out_db (process_message env st m db)) eid = Some srow
         \<and> sum_status srow \<and> sum_summary srow = gs @ RECOMMENDED_SEP @ ra"
proof -
  define payload where "payload =
     AList.update ''path'' path
         (AList.update ''generated_summary'' (PStr (gs @ RECOMMENDED_SEP @ ra))
         (AList.update ''content'' content
         (AList.update ''timestamp'' received
         (AList.update ''sender'' sender
         (AList.update ''subject'' subject
         (AList.update ''body'' content
         (AList.update ''email_id'' eid output)))))))"
  have en: "enrich body output = Inr payload"
    unfolding payload_def using body texts by (rule enrich_payload)
  have pg: "map_of payload ''generated_summary'' = Some (PStr (gs @ RECOMMENDED_SEP @ ra))"
    and pe: "map_of payload ''email_id'' = Some eid"
    by (simp_all add: payload_def update_conv')
  have g: "dict_get body ''email_id'' PNone = eid" using body(1) by simp
  from resolve_rows [OF resolved] g obtain row0 where
    row0: "find_segregated db1 eid = Some row0"
    and sm: "find_summary db1 eid \<noteq> None \<or> has_raw_email db1 eid"
    by auto
  define db2 where "db2 = db1\<lparr>segregated :=
      map (\<lambda>r. if seg_email_id r = eid then r\<lparr>seg_status := True\<rparr> else r) (segregated db1)\<rparr>"
  have up1: "insert_or_update_segregation (clock env) db1 eid [(''status'', PBool True)] = Inr db2"
    unfolding db2_def using row0 by (rule segregation_mark_status)
  have f2: "find_segregated db2 eid = Some (row0\<lparr>seg_status := True\<rparr>)"
    unfolding db2_def using row0 by (rule segregation_marked_found)
  have sm2: "find_summary db2 eid \<noteq> None \<or> has_raw_email db2 eid"
    using sm unfolding db2_def find_summary_def has_raw_email_def by auto
  from summary_upsert_found [OF sm2, of "clock env" "gs @ RECOMMENDED_SEP @ ra"]
  obtain db3 srow where
    up2: "insert_or_update_summary (clock env) db2 eid (gs @ RECOMMENDED_SEP @ ra) True = Inr db3"
    and f3: "find_summary db3 eid = Some srow" "sum_status srow"
      "sum_summary srow = gs @ RECOMMENDED_SEP @ ra"
    and seg3: "segregated db3 = segregated db2"
    by blast
  have enq: "enqueue env st payload db1
      = ([Publish [] (JIRA_QUEUE_NAME st) (Json payload) [], Ack], db3)"
    using broker pe pg up1 up2
    by (simp add: enqueue_def classifier_SUMM_QUEUE_NAME_def)
  have disp: "dispatch env st body output db1
      = (Inr [Publish [] (JIRA_QUEUE_NAME st) (Json payload) [], Ack], db3)"
    using resource priority en enq by (auto simp: dispatch_def)
  have pm: "process_message env st m db
      = \<lparr>out_db = db3, out_actions = [Publish [] (JIRA_QUEUE_NAME st) (Json payload) [], Ack],
         out_escaped = None\<rparr>"
    using loads resolved disp by (simp add: process_message_def try_block_def)
  have f4: "find_segregated db3 eid = Some (row0\<lparr>seg_status := True\<rparr>)"
    using f2 seg3 unfolding find_segregated_def by (auto split: if_splits)
  show ?thesis
    using en pg pe pm f4 f3 by simp
qed

theorem p1_p2_enqueued_witness:
  "out_actions (process_message example_env default_settings example_message example_db)
     = [Publish [] ''my_jira_queue'' (Json example_payload) [], Ack]
   \<and> out_escaped (process_message example_env default_settings example_message example_db) = None
   \<and> (\<exists>row. find_segregated
                 (out_db (process_message example_env default_settings example_message example_db))
                 (PStr ''e2'') = Some row \<and> seg_status row)
   \<and> (\<exists>srow. find_summary
                 (out_db (process_message example_env default_settings example_message example_db))
                 (PStr ''e2'') = Some srow \<and> sum_status srow
               \<and> sum_summary srow = ''CPU is high'' @ RECOMMENDED_SEP @ ''Restart'')"
proof -
  have loads: "json_loads example_env (msg_body example_message) = Inr (JDict example_body)"
    by (simp add: example_env_def)
  have pr: "map_of example_output ''priority'' = Some (PStr ''P1'')
          \<or> map_of example_output ''priority'' = Some (PStr ''P2'')"
    by (simp add: example_output_def)
  have rn: "map_of example_output ''resource_name'' = Some (PStr ''hostA'')"
    by (simp add: example_output_def)
  have nm: "\<not> in_maintenance (example_db\<lparr>segregated := [example_prior, example_new_row]\<rparr>)
               (PStr ''hostA'')"
    by code_simp
  have b: "map_of example_body ''email_id'' = Some (PStr ''e2'')"
    "map_of example_body ''content'' = Some (PStr ''CPU above 90'')"
    "map_of example_body ''subject'' = Some (PStr ''High CPU on hostA'')"
    "map_of example_body ''sender_address'' = Some (PStr ''controlup@example.org'')"
    "map_of example_body ''received_time'' = Some (PStr ''2025-01-07T10:30:00+00:00'')"
    "map_of example_body ''msg_path'' = Some (PStr ''/mail/e2.msg'')"
    by (simp_all add: example_body_def)
  have t: "map_of example_output ''generated_summary'' = Some (PStr ''CPU is high'')"
    "map_of example_output ''recommended_action'' = Some (PStr ''Restart'')"
    by (simp_all add: example_output_def)
  have br: "broker_connect example_env = None" "publish_ok example_env"
    by (simp_all add: example_env_def)
  have en: "enrich example_body example_output = Inr example_payload"
    by code_simp
  have jq: "JIRA_QUEUE_NAME default_settings = ''my_jira_queue''"
    by (simp add: default_settings_def)
  from p1_p2_enqueued [OF loads example_resolve pr rn nm b t br, of default_settings]
  show ?thesis unfolding en jq by auto
qed

text \<open>
  Whitespace is not only the blank: the no-break space U+00A0 and the next-line
  character U+0085 separate the words of the pattern too, and \<open>strip\<close> removes them.
\<close>

lemma graceful_search_whitespace:
  "graceful_search (''Machine'' @ [CHR 0xA0] @ ''shut down'' @ [CHR 0x85] @ ''GRACEFULLY'')
   \<and> py_strip ('' High CPU'' @ [CHR 0xA0]) = ''High CPU''"
  by code_simp

definition graceful_body :: pydict where
  "graceful_body = [(''email_id'', PStr ''e3''), (''sender_address'', PStr ''controlup@example.org''),
     (''content'', PStr ''The machine was shut down by its user.''),
     (''subject'', PStr ''Machine DESKZ02550.bitzer.biz is down (Machine shut down gracefully.)''),
     (''received_time'', PStr ''2025-01-07T11:00:00+00:00''),
     (''msg_path'', PStr ''/mail/e3.msg'')]"

definition graceful_env :: classifier_env where
  "graceful_env = example_env\<lparr>
     json_loads := (\<lambda>b. Inr (JDict graceful_body)),
     first_pass := (\<lambda>b. Inr (JDict [(''trigger_name'', PStr ''Machine down''),
                                     (''resource_name'', PStr ''DESKZ02550''),
                                     (''priority'', PStr ''P1'')]))\<rparr>"

definition graceful_db :: database where
  "graceful_db = empty_db\<lparr>raw_emails := [example_raw ''e3'']\<rparr>"

text \<open>
  Two deliveries of that mail on which the pattern test is not reached: the first pass
  returns no \<open>trigger_name\<close> (line 107 raises \<open>KeyError\<close>); and a \<open>SegregatedEmail\<close> row
  for the mail exists already with status false, as the first upsert of line 119
  leaves it when the handler fails before the second of line 123 (lines 171-182 then
  read the summary of a \<open>SummaryTable\<close> row that does not exist).
\<close>

definition graceful_env_no_trigger :: classifier_env where
  "graceful_env_no_trigger = graceful_env\<lparr>
     first_pass := (\<lambda>b. Inr (JDict [(''resource_name'', PStr ''DESKZ02550''),
                                     (''priority'', PStr ''P1'')]))\<rparr>"

definition graceful_row :: segregated_email where
  "graceful_row = \<lparr>seg_email_id = PStr ''e3'', seg_priority = PStr ''informational'',
     seg_type = PStr ''informational'', seg_resource_name = PStr ''DESKZ02550'',
     seg_trigger_name = PStr ''Machine down'', seg_inserted_at = 7200000000,
     seg_status = False\<rparr>"

text \<open>
  Claim C5, as stated: every classifier message whose subject and body match the
  graceful-shutdown pattern is overridden to informational, its \<open>SegregatedEmail\<close> row
  set to status true, and acknowledged. Not every one: the pattern is tested only after
  the first pass has returned its two names, and only when no \<open>SegregatedEmail\<close> row
  exists for the mail. On the two deliveries above the matching mail is
  negative-acknowledged and republished for a retry, no row is written or set to status
  true.
\<close>

theorem graceful_shutdown_counterexample:
  "graceful_search (py_str (dict_get graceful_body ''subject'' (PStr [])) @ '' ''
                    @ py_str (dict_get graceful_body ''content'' (PStr [])))
   \<and> process_message graceful_env_no_trigger default_settings example_message graceful_db
     = \<lparr>out_db = graceful_db,
        out_actions = [Nack False,
          Publish [] ''my_class_queue'' (Raw ''{}'') [(''x-retries'', HInt 1)]],
        out_escaped = None\<rparr>
   \<and> process_message graceful_env default_settings example_message
       (graceful_db\<lparr>segregated := [graceful_row]\<rparr>)
     = \<lparr>out_db = graceful_db\<lparr>segregated := [graceful_row]\<rparr>,
        out_actions = [Nack False,
          Publish [] ''my_class_queue'' (Raw ''{}'') [(''x-retries'', HInt 1)]],
        out_escaped = None\<rparr>"
  by code_simp

text \<open>
  Claim C5, amended. A message that is classified afresh (it decodes, no \<open>SegregatedEmail\<close>
  row exists for its id, its raw email is stored, and the first pass returned a dictionary
  with string \<open>trigger_name\<close> and \<open>resource_name\<close>) and whose subject and content, joined
  by a space, match the graceful-shutdown pattern: the classification dictionary gets
  priority \<open>informational\<close>, type \<open>informational\<close> and recommended_action \<open>N/A\<close>; the
  \<open>SegregatedEmail\<close> row is written from it and ends with status true; the message is
  acknowledged, and nothing is published.
\<close>

theorem graceful_shutdown_informational:
  assumes loads: "json_loads env (msg_body m) = Inr (JDict body)"
    and fresh: "map_of body ''email_id'' = Some eid" "find_segregated db eid = None"
      "has_raw_email db eid"
    and pass1: "first_pass env body = Inr (JDict raw1)"
      "map_of raw1 ''trigger_name'' = Some (PStr tn)"
      "map_of raw1 ''resource_name'' = Some (PStr rn)"
    and subject: "map_of body ''subject'' = Some subject"
    and graceful: "graceful_search (py_str subject @ '' ''
                                     @ py_str (dict_get body ''content'' (PStr [])))"
    and output1: "output1 = AList.update ''subject'' subject
                   (AList.update ''resource_name'' (PStr (py_strip rn))
                     (AList.update ''trigger_name'' (PStr (py_strip tn)) raw1))"
  shows "map_of (graceful_override output1) ''priority'' = Some (PStr ''informational'')
       \<and> map_of (graceful_override output1) ''type'' = Some (PStr ''informational'')
       \<and> map_of (graceful_override output1) ''recommended_action'' = Some (PStr ''N/A'')
       \<and> process_message env st m db
           = \<lparr>out_db = db\<lparr>segregated := segregated db @
                  [\<lparr>seg_email_id = eid, seg_priority = PStr ''informational'',
                    seg_type = PStr ''informational'', seg_resource_name = PStr (py_strip rn),
                    seg_trigger_name = PStr (py_strip tn),
                    seg_inserted_at = to_millis (clock env), seg_status = True\<rparr>]\<rparr>,
              out_actions = [Ack], out_escaped = None\<rparr>"
proof -
  define row where "row = \<lparr>seg_email_id = eid, seg_priority = PStr ''informational'',
                    seg_type = PStr ''informational'', seg_resource_name = PStr (py_strip rn),
                    seg_trigger_name = PStr (py_strip tn),
                    seg_inserted_at = to_millis (clock env), seg_status = False\<rparr>"
  define db1 where "db1 = db\<lparr>segregated := segregated db @ [row]\<rparr>"
  have ov: "map_of (graceful_override output1) ''priority'' = Some (PStr ''informational'')"
    "map_of (graceful_override output1) ''type'' = Some (PStr ''informational'')"
    "map_of (graceful_override output1) ''recommended_action'' = Some (PStr ''N/A'')"
    "map_of (graceful_override output1) ''resource_name'' = Some (PStr (py_strip rn))"
    "map_of (graceful_override output1) ''trigger_name'' = Some (PStr (py_strip tn))"
    by (simp_all add: graceful_override_def output1 update_conv')
  have st1: "bindE (strip_item raw1 ''trigger_name'') (\<lambda>a.
                bindE (strip_item a ''resource_name'') (\<lambda>b.
                bindE (item body ''subject'') (\<lambda>subject.
                  Inr (AList.update ''subject'' subject b)))) = Inr output1"
    using pass1 subject by (simp add: strip_item_def output1 update_conv')
  have ins1: "insert_or_update_segregation (clock env) db eid (graceful_override output1) = Inr db1"
    unfolding db1_def row_def using fresh(2,3) ov(1,2,4,5) by (rule segregation_insert)
  have eidn: "eid \<noteq> PNone" using fresh(3) by (simp add: has_raw_email_def)
  have f1: "find_segregated db1 eid = Some row"
    unfolding db1_def using fresh(2) eidn by (rule segregation_inserted_found) (simp add: row_def)
  have ins2: "insert_or_update_segregation (clock env) db1 eid [(''status'', PBool True)]
      = Inr (db1\<lparr>segregated := map (\<lambda>r. if seg_email_id r = eid then r\<lparr>seg_status := True\<rparr> else r)
                                 (segregated db1)\<rparr>)"
    using f1 by (rule segregation_mark_status)
  have old: "map (\<lambda>r. if seg_email_id r = eid then r\<lparr>seg_status := True\<rparr> else r) (segregated db)
      = segregated db"
    using fresh(2) eidn map_unfound [of eid "segregated db"] by (simp add: find_segregated_def)
  have fin: "db1\<lparr>segregated := map (\<lambda>r. if seg_email_id r = eid then r\<lparr>seg_status := True\<rparr> else r)
                                 (segregated db1)\<rparr>
      = db\<lparr>segregated := segregated db @ [row\<lparr>seg_status := True\<rparr>]\<rparr>"
    by (simp add: db1_def old row_def)
  have g: "dict_get body ''email_id'' PNone = eid" "dict_get body ''subject'' (PStr []) = subject"
    using fresh(1) subject by simp_all
  have cf: "classify_fresh env body db
      = (Inr Finished, db\<lparr>segregated := segregated db @ [row\<lparr>seg_status := True\<rparr>]\<rparr>)"
    using pass1(1) st1 graceful g fresh(1) ins1 ins2 fin
    by (simp add: classify_fresh_def)
  have rs: "resolve env body db
      = (Inr Finished, db\<lparr>segregated := segregated db @ [row\<lparr>seg_status := True\<rparr>]\<rparr>)"
    using fresh(2) g cf by (simp add: resolve_def)
  have pm: "process_message env st m db
      = \<lparr>out_db = db\<lparr>segregated := segregated db @ [row\<lparr>seg_status := True\<rparr>]\<rparr>,
         out_actions = [Ack], out_escaped = None\<rparr>"
    using loads rs by (simp add: process_message_def try_block_def)
  show ?thesis using ov(1,2,3) pm by (simp add: row_def)
qed

theorem graceful_shutdown_informational_witness:
  "process_message graceful_env default_settings example_message graceful_db
     = \<lparr>out_db = graceful_db\<lparr>segregated :=
            [\<lparr>seg_email_id = PStr ''e3'', seg_priority = PStr ''informational'',
              seg_type = PStr ''informational'', seg_resource_name = PStr ''DESKZ02550'',
              seg_trigger_name = PStr ''Machine down'',
              seg_inserted_at = 7200000000, seg_status = True\<rparr>]\<rparr>,
        out_actions = [Ack], out_escaped = None\<rparr>"
proof -
  have loads: "json_loads graceful_env (msg_body example_message) = Inr (JDict graceful_body)"
    by (simp add: graceful_env_def)
  have fr: "map_of graceful_body ''email_id'' = Some (PStr ''e3'')"
    "find_segregated graceful_db (PStr ''e3'') = None"
    "has_raw_email graceful_db (PStr ''e3'')"
    by (simp_all add: graceful_body_def graceful_db_def empty_db_def find_segregated_def
        has_raw_email_def example_raw_def)
  have p1: "first_pass graceful_env graceful_body
      = Inr (JDict [(''trigger_name'', PStr ''Machine down''),
                    (''resource_name'', PStr ''DESKZ02550''), (''priority'', PStr ''P1'')])"
    "map_of [(''trigger_name'', PStr ''Machine down''),
             (''resource_name'', PStr ''DESKZ02550''), (''priority'', PStr ''P1'')]
        ''trigger_name'' = Some (PStr ''Machine down'')"
    "map_of [(''trigger_name'', PStr ''Machine down''),
             (''resource_name'', PStr ''DESKZ02550''), (''priority'', PStr ''P1'')]
        ''resource_name'' = Some (PStr ''DESKZ02550'')"
    by (simp_all add: graceful_env_def)
  have sj: "map_of graceful_body ''subject''
      = Some (PStr ''Machine DESKZ02550.bitzer.biz is down (Machine shut down gracefully.)'')"
    by (simp add: graceful_body_def)
  have gs: "graceful_search
      (py_str (PStr ''Machine DESKZ02550.bitzer.biz is down (Machine shut down gracefully.)'')
       @ '' '' @ py_str (dict_get graceful_body ''content'' (PStr [])))"
    by code_simp
  have st: "py_strip ''Machine down'' = ''Machine down''" "py_strip ''DESKZ02550'' = ''DESKZ02550''"
    by code_simp+
  have ck: "to_millis (clock graceful_env) = 7200000000"
    by (simp add: graceful_env_def example_env_def to_millis_def)
  from graceful_shutdown_informational [OF loads fr p1 sj gs refl, of default_settings]
  show ?thesis unfolding st ck by (simp add: graceful_db_def empty_db_def)
qed

text \<open>
  Claim C8, as stated: an alert that arrives within WINDOW hours after a prior
  non-informational alert for the same trigger and resource is suppressed by the
  classifier, with a DuplicateEmail row. It is not: mail \<open>e2\<close> arrives 30 minutes after
  \<open>e1\<close> (the window helper, had it been called, finds \<open>e1\<close>), and the classifier hands
  \<open>e2\<close> on and writes no DuplicateEmail row.
\<close>

theorem window_suppression_counterexample:
  "fst (get_email_id_within_hour default_settings (clock example_env) example_db
          (PStr ''High CPU'') (PStr ''hostA'') (PStr ''e2'')) = Some (PStr ''e1'')
   \<and> out_actions (process_message example_env default_settings example_message example_db)
     = [Publish [] ''my_jira_queue'' (Json example_payload) [], Ack]
   \<and> duplicate_emails
       (out_db (process_message example_env default_settings example_message example_db)) = []"
  by code_simp

text \<open>
  Claim C8, amended: the classifier does no time-window suppression. Its call of
  \<open>get_email_id_within_hour\<close> is commented out, and on every message, whatever the
  store holds, it leaves the DuplicateEmail table as it was.
\<close>

theorem classifier_writes_no_duplicate:
  "duplicate_emails (out_db (process_message env st m db)) = duplicate_emails db"
  by (auto simp: process_message_def split: prod.splits sum.splits
      dest!: try_block_duplicates)

theorem classifier_writes_no_duplicate_witness:
  "duplicate_emails
     (out_db (process_message example_env default_settings example_message example_db)) = []"
  using classifier_writes_no_duplicate
    [of example_env default_settings example_message example_db]
  by (simp add: example_db_def empty_db_def)

section \<open>The actioner: cross-ticket deduplication\<close>

text \<open>
  \<open>jira_integration.py\<close>, class \<open>JiraIntegration\<close>. The collaborators are parameters:
  \<^item> \<open>issue_status\<close>: \<open>self.jira_client.issue(id).fields.status.name\<close>, or the exception
    of the call;
  \<^item> \<open>create_issue\<close>: \<open>self.jira_client.create_issue(...)\<close> for a summary, a description
    and a priority name: the key of the new issue, or the exception;
  \<^item> \<open>created_assignee\<close>: \<open>issue.fields.assignee.displayName\<close> of the issue as created,
    if it has an assignee;
  \<^item> \<open>lookup_error\<close>: the exception of \<open>get_db()\<close> or of the join query, if it raises;
  \<^item> \<open>record_error\<close>: the exception of adding and committing the DuplicateEmail row;
  \<^item> \<open>sha256_hexdigest\<close>: \<open>hashlib.sha256(s.encode()).hexdigest()\<close>;
  \<^item> \<open>now_isoformat\<close>, \<open>now\<close>: \<open>datetime.now()\<close>, as text and as a timestamp;
    \<open>fromisoformat\<close>: \<open>datetime.fromisoformat\<close>, \<open>None\<close> where it raises.
  The calls made on the tracker are recorded; \<open>AssignByEmail\<close> and \<open>AttachOriginal\<close>
  stand for \<open>assign_issue_by_email\<close> and \<open>_attach_original_email\<close>, which log and swallow
  their own failures.
\<close>

record actioner_env =
  issue_status :: "string \<Rightarrow> exn + string"
  create_issue :: "string \<Rightarrow> pyval \<Rightarrow> string \<Rightarrow> exn + string"
  created_assignee :: "string option"
  lookup_error :: "exn option"
  record_error :: "exn option"
  sha256_hexdigest :: "string \<Rightarrow> string"
  now_isoformat :: string
  now :: timestamp
  fromisoformat :: "string \<Rightarrow> timestamp option"

datatype tracker_call = GetIssue string | CreateIssue string pyval string
  | AssignByEmail string string | AttachOriginal string pyval

definition get_ticket_status :: "actioner_env \<Rightarrow> string \<Rightarrow> string option" where
  "get_ticket_status env jira_ticket_id =
     (case issue_status env jira_ticket_id of Inl e \<Rightarrow> None | Inr status \<Rightarrow> Some status)"

definition open_statuses :: "string list" where
  "open_statuses = [''open'', ''in progress'', ''to do'', ''new'', ''reopened'', ''pending'',
                    ''waiting'', ''in review'']"

definition is_ticket_open :: "actioner_env \<Rightarrow> string \<Rightarrow> bool" where
  "is_ticket_open env jira_ticket_id =
     (case get_ticket_status env jira_ticket_id of
        None \<Rightarrow> False
      | Some status \<Rightarrow> py_lower status \<in> set open_statuses)"

text \<open>
  The join of \<open>segregated_email\<close> with \<open>jira_table\<close> on \<open>email_id\<close>, filtered by trigger,
  resource and "not the current email", newest \<open>SegregatedEmail.inserted_at\<close> first
  (\<open>jiraticket_id\<close> is never NULL). Of several newest rows the first is taken.
\<close>

definition previous_tickets ::
  "database \<Rightarrow> pyval \<Rightarrow> pyval \<Rightarrow> pyval \<Rightarrow> (segregated_email \<times> jira_entry) list" where
  "previous_tickets db trigger_name resource_name current_email_id =
     concat (map (\<lambda>s. map (\<lambda>j. (s, j))
                          (filter (\<lambda>j. jira_email_id j = seg_email_id s) (jira_table db)))
       (filter (\<lambda>s. seg_trigger_name s = trigger_name
                   \<and> seg_resource_name s = resource_name
                   \<and> seg_email_id s \<noteq> current_email_id)
          (segregated db)))"

fun newest :: "(segregated_email \<times> jira_entry) list \<Rightarrow> (segregated_email \<times> jira_entry) option" where
  "newest [] = None"
| "newest (x # xs) =
     (case newest xs of
        None \<Rightarrow> Some x
      | Some y \<Rightarrow> if seg_inserted_at (fst y) > seg_inserted_at (fst x) then Some y else Some x)"

definition find_previous_jira_ticket ::
  "actioner_env \<Rightarrow> database \<Rightarrow> pyval \<Rightarrow> pyval \<Rightarrow> pyval \<Rightarrow> string option" where
  "find_previous_jira_ticket env db trigger_name resource_name current_email_id =
     (case lookup_error env of
        Some e \<Rightarrow> None
      | None \<Rightarrow>
          (case newest (previous_tickets db trigger_name resource_name current_email_id) of
             Some (s, j) \<Rightarrow> Some (jiraticket_id j)
           | None \<Rightarrow> None))"

text \<open>
  \<open>should_create_ticket\<close>. Its first log line slices \<open>trigger_name[:40]\<close>, which raises
  for a trigger name that is not a string.
\<close>

definition should_create_ticket ::
  "actioner_env \<Rightarrow> database \<Rightarrow> pyval \<Rightarrow> pyval \<Rightarrow> pyval
     \<Rightarrow> exn + (bool \<times> string option) \<times> tracker_call list" where
  "should_create_ticket env db trigger_name resource_name current_email_id =
     (case trigger_name of
        PStr t \<Rightarrow>
          (case find_previous_jira_ticket env db trigger_name resource_name current_email_id of
             None \<Rightarrow> Inr ((True, None), [])
           | Some previous_ticket_id \<Rightarrow>
               if is_ticket_open env previous_ticket_id
               then Inr ((False, Some previous_ticket_id), [GetIssue previous_ticket_id])
               else Inr ((True, None), [GetIssue previous_ticket_id]))
      | _ \<Rightarrow> Inl TypeError)"

text \<open>\<open>needle in haystack\<close> for strings.\<close>

fun contains :: "string \<Rightarrow> string \<Rightarrow> bool" where
  "contains needle [] = (needle = [])"
| "contains needle (c # cs) = (take (length needle) (c # cs) = needle \<or> contains needle cs)"

definition get_category :: "pyval \<Rightarrow> pyval \<Rightarrow> string" where
  "get_category subject body =
     (let combined = py_lower (py_str subject @ '' '' @ py_str body) in
      if contains ''citrix'' combined \<or> contains ''pvs'' combined then ''CITRIX''
      else if contains ''sap'' combined then ''SAP''
      else if contains ''hypervisor'' combined \<or> contains ''vmware'' combined
        then ''Hypervisor/VMware''
      else if contains ''bitzer'' combined then ''BITZER''
      else if contains ''controlup'' combined then ''ControlUp''
      else ''General'')"

definition convert_priority_to_jira :: "pyval \<Rightarrow> string" where
  "convert_priority_to_jira priority =
     (case map_of [(PStr ''P1'', ''Highest''), (PStr ''P2'', ''High''), (PStr ''P3'', ''Medium''),
                   (PStr ''Informational'', ''Low''), (PStr ''NA'', ''Lowest'')] priority of
        Some name \<Rightarrow> name
      | None \<Rightarrow> ''Medium'')"

text \<open>
  Lines 756-799: the DuplicateEmail row of a skipped ticket. Its \<open>email_id\<close> is the current
  email's id and its \<open>duplicate_email_id\<close> the digest of \<open>email_id + "_" + now\<close>. A failure
  of the insert (also that of a primary key already present) is logged and swallowed.
\<close>

definition record_duplicate :: "actioner_env \<Rightarrow> database \<Rightarrow> pydict \<Rightarrow> pyval \<Rightarrow> database" where
  "record_duplicate env db email_data email_id =
     (let duplicate_id = sha256_hexdigest env (py_str email_id @ ''_'' @ now_isoformat env);
          received_time =
            (case dict_get email_data ''timestamp'' PNone of
               PStr ts \<Rightarrow> (if ts = [] then now env
                           else case fromisoformat env ts of Some t \<Rightarrow> t | None \<Rightarrow> now env)
             | _ \<Rightarrow> now env);
          duplicate_entry =
            \<lparr>dup_email_id = email_id, duplicate_email_id = duplicate_id,
             dup_subject = dict_get email_data ''subject'' PNone,
             dup_body = dict_get email_data ''body'' PNone,
             dup_sender = dict_get email_data ''sender'' PNone,
             dup_received_at = received_time\<rparr>
      in if record_error env \<noteq> None
            \<or> duplicate_id \<in> duplicate_email_id ` set (duplicate_emails db)
         then db
         else db\<lparr>duplicate_emails := duplicate_emails db @ [duplicate_entry]\<rparr>)"

text \<open>
  \<open>create_ticket_sync\<close>: \<open>Skipped\<close> is the tuple of four \<open>None\<close> of the duplicate path,
  \<open>Failed\<close> the \<open>None\<close> of the \<open>except\<close> block, \<open>Created\<close> the tuple of the new ticket.
\<close>

datatype ticket_result = Created string pyval string string | Skipped | Failed

definition create_ticket_sync ::
  "actioner_env \<Rightarrow> database \<Rightarrow> pydict \<Rightarrow> string
     \<Rightarrow> ticket_result \<times> database \<times> tracker_call list" where
  "create_ticket_sync env db email_data email =
     (let machine_name = dict_get email_data ''resource_name'' (PStr ''Unknown'');
          trigger_name = dict_get email_data ''trigger_name'' (PStr []);
          email_id = dict_get email_data ''email_id'' (PStr []);
          category = get_category (dict_get email_data ''subject'' (PStr []))
                                  (dict_get email_data ''body'' (PStr []))
      in case should_create_ticket env db trigger_name machine_name email_id of
           Inl e \<Rightarrow> (Failed, db, [])
         | Inr ((should_create, existing_ticket), calls) \<Rightarrow>
             if \<not> should_create then
               (Skipped, record_duplicate env db email_data email_id, calls)
             else
               (let summary = py_str trigger_name @ '' - '' @ py_str machine_name;
                    description = dict_get email_data ''generated_summary'' (PStr []);
                    priority = convert_priority_to_jira
                                 (dict_get email_data ''priority'' (PStr ''Medium''))
                in case create_issue env summary description priority of
                     Inl e \<Rightarrow> (Failed, db, calls @ [CreateIssue summary description priority])
                   | Inr issue_key \<Rightarrow>
                       (Created issue_key machine_name category
                          (case created_assignee env of Some name \<Rightarrow> name | None \<Rightarrow> email),
                        db,
                        calls @ [CreateIssue summary description priority,
                                 AssignByEmail issue_key email,
                                 AttachOriginal issue_key
                                   (dict_get email_data ''path'' (PStr []))])))"

text \<open>
  Scenario 4 of the specification: mail \<open>e1\<close> has the ticket MAI-100, which is in
  progress; mail \<open>e2\<close> with the same trigger and resource reaches the actioner. The
  digest is a parameter; the example shows its argument.
\<close>

definition example_actioner :: actioner_env where
  "example_actioner = \<lparr>issue_status = (\<lambda>t. if t = ''MAI-100'' then Inr ''In Progress''
                                               else Inl (Raised ''404'')),
     create_issue = (\<lambda>s d p. Inr ''MAI-101''), created_assignee = None,
     lookup_error = None, record_error = None,
     sha256_hexdigest = (\<lambda>s. ''sha256('' @ s @ '')''),
     now_isoformat = ''2025-01-07T10:31:00'', now = 7260000000,
     fromisoformat = (\<lambda>s. if s = ''2025-01-07T10:30:00+00:00'' then Some 7200000000 else None)\<rparr>"

definition ticketed_db :: database where
  "ticketed_db = example_db\<lparr>segregated := [example_prior, example_new_row\<lparr>seg_status := True\<rparr>],
     jira_table := [\<lparr>jira_email_id = PStr ''e1'', jiraticket_id = ''MAI-100'',
                     assigned_to = PNone\<rparr>]\<rparr>"

text \<open>
  Claim C3, as stated: the DuplicateEmail row has the prior email's id as \<open>email_id\<close> and
  the current email's id as \<open>duplicate_email_id\<close>. It has not: for the current mail \<open>e2\<close>
  and the prior mail \<open>e1\<close> the row's \<open>email_id\<close> is \<open>e2\<close>, and its \<open>duplicate_email_id\<close> is
  the digest of \<open>e2\<close>, an underscore and the current time.
\<close>

theorem duplicate_row_counterexample:
  "create_ticket_sync example_actioner ticketed_db example_payload ''Monitoring.AI@bitzer.de''
     = (Skipped,
        ticketed_db\<lparr>duplicate_emails :=
          [\<lparr>dup_email_id = PStr ''e2'',
            duplicate_email_id = ''sha256(e2_2025-01-07T10:31:00)'',
            dup_subject = PStr ''High CPU on hostA'', dup_body = PStr ''CPU above 90'',
            dup_sender = PStr ''controlup@example.org'', dup_received_at = 7200000000\<rparr>]\<rparr>,
        [GetIssue ''MAI-100''])"
  by code_simp

text \<open>
  Claim C3, amended. In the actioner, when the newest prior email with the same
  (trigger_name, resource_name) has a tracker ticket whose status is, in lower case, one
  of open, in progress, to do, new, reopened, pending, waiting, in review: no ticket is
  created (the tracker is only asked for the prior ticket), the function returns the
  tuple of four \<open>None\<close>, and (unless the insert fails, which is logged and ignored) one
  DuplicateEmail row is added whose \<open>email_id\<close> is the current email's id and whose
  \<open>duplicate_email_id\<close> is the SHA-256 digest of the current email's id, an underscore and
  the current time in ISO format.
\<close>

theorem open_ticket_suppresses:
  assumes trigger: "dict_get email_data ''trigger_name'' (PStr []) = PStr tn"
    and prior: "find_previous_jira_ticket env db (PStr tn)
                  (dict_get email_data ''resource_name'' (PStr ''Unknown''))
                  (dict_get email_data ''email_id'' (PStr [])) = Some ticket"
    and status: "issue_status env ticket = Inr status" "py_lower status \<in> set open_statuses"
    and insert_ok: "record_error env = None"
      "sha256_hexdigest env (py_str (dict_get email_data ''email_id'' (PStr []))
                             @ ''_'' @ now_isoformat env)
         \<notin> duplicate_email_id ` set (duplicate_emails db)"
  shows "\<exists>row. create_ticket_sync env db email_data email
           = (Skipped, db\<lparr>duplicate_emails := duplicate_emails db @ [row]\<rparr>, [GetIssue ticket])
         \<and> dup_email_id row = dict_get email_data ''email_id'' (PStr [])
         \<and> duplicate_email_id row
             = sha256_hexdigest env (py_str (dict_get email_data ''email_id'' (PStr []))
                                     @ ''_'' @ now_isoformat env)"
proof -
  have op: "is_ticket_open env ticket"
    using status by (simp add: is_ticket_open_def get_ticket_status_def)
  have sc: "should_create_ticket env db (PStr tn)
              (dict_get email_data ''resource_name'' (PStr ''Unknown''))
              (dict_get email_data ''email_id'' (PStr []))
            = Inr ((False, Some ticket), [GetIssue ticket])"
    using prior op by (simp add: should_create_ticket_def)
  define row where "row =
     \<lparr>dup_email_id = dict_get email_data ''email_id'' (PStr []),
      duplicate_email_id =
        sha256_hexdigest env (py_str (dict_get email_data ''email_id'' (PStr []))
                              @ ''_'' @ now_isoformat env),
      dup_subject = dict_get email_data ''subject'' PNone,
      dup_body = dict_get email_data ''body'' PNone,
      dup_sender = dict_get email_data ''sender'' PNone,
      dup_received_at =
        (case dict_get email_data ''timestamp'' PNone of
           PStr ts \<Rightarrow> (if ts = [] then now env
                       else case fromisoformat env ts of Some t \<Rightarrow> t | None \<Rightarrow> now env)
         | _ \<Rightarrow> now env)\<rparr>"
  have run: "create_ticket_sync env db email_data email
      = (Skipped, db\<lparr>duplicate_emails := duplicate_emails db @ [row]\<rparr>, [GetIssue ticket])"
    using trigger sc insert_ok
    by (simp add: create_ticket_sync_def record_duplicate_def Let_def row_def)
  show ?thesis
    by (rule exI [of _ row]) (simp add: run row_def)
qed

theorem open_ticket_suppresses_witness:
  "\<exists>row. create_ticket_sync example_actioner ticketed_db example_payload ''Monitoring.AI@bitzer.de''
           = (Skipped, ticketed_db\<lparr>duplicate_emails := duplicate_emails ticketed_db @ [row]\<rparr>,
              [GetIssue ''MAI-100''])
         \<and> dup_email_id row = PStr ''e2''
         \<and> duplicate_email_id row = ''sha256(e2_2025-01-07T10:31:00)''"
proof -
  have tr: "dict_get example_payload ''trigger_name'' (PStr []) = PStr ''High CPU''"
    by code_simp
  have rn: "dict_get example_payload ''resource_name'' (PStr ''Unknown'') = PStr ''hostA''"
    by code_simp
  have ei: "dict_get example_payload ''email_id'' (PStr []) = PStr ''e2''"
    by code_simp
  have pr: "find_previous_jira_ticket example_actioner ticketed_db (PStr ''High CPU'')
              (dict_get example_payload ''resource_name'' (PStr ''Unknown''))
              (dict_get example_payload ''email_id'' (PStr [])) = Some ''MAI-100''"
    by code_simp
  have st: "issue_status example_actioner ''MAI-100'' = Inr ''In Progress''"
    by (simp add: example_actioner_def)
  have lo: "py_lower ''In Progress'' \<in> set open_statuses"
    by code_simp
  have re: "record_error example_actioner = None"
    by (simp add: example_actioner_def)
  have fr: "sha256_hexdigest example_actioner
              (py_str (dict_get example_payload ''email_id'' (PStr []))
               @ ''_'' @ now_isoformat example_actioner)
            \<notin> duplicate_email_id ` set (duplicate_emails ticketed_db)"
    by (simp add: ticketed_db_def example_db_def empty_db_def)
  have dg: "sha256_hexdigest example_actioner (py_str (PStr ''e2'') @ ''_''
              @ now_isoformat example_actioner) = ''sha256(e2_2025-01-07T10:31:00)''"
    by (simp add: example_actioner_def)
  from open_ticket_suppresses [OF tr pr st lo re fr, of "''Monitoring.AI@bitzer.de''"]
  show ?thesis unfolding ei dg .
qed

text \<open>
  Claim C10. Whenever the lookup of a prior ticket raises, or a prior ticket is found
  but the tracker cannot give its status, the actioner decides "create": nothing is
  recorded as a duplicate, and the tracker is asked to create the issue (the function
  returns the new ticket, or \<open>None\<close> when the creation itself fails).
\<close>

theorem undetermined_status_creates:
  assumes trigger: "dict_get email_data ''trigger_name'' (PStr []) = PStr tn"
    and undetermined:
      "(\<exists>e. lookup_error env = Some e \<and> calls = [])
       \<or> (\<exists>ticket e. find_previous_jira_ticket env db (PStr tn)
                         (dict_get email_data ''resource_name'' (PStr ''Unknown''))
                         (dict_get email_data ''email_id'' (PStr [])) = Some ticket
                     \<and> issue_status env ticket = Inl e \<and> calls = [GetIssue ticket])"
  shows "should_create_ticket env db (PStr tn)
           (dict_get email_data ''resource_name'' (PStr ''Unknown''))
           (dict_get email_data ''email_id'' (PStr [])) = Inr ((True, None), calls)
       \<and> fst (create_ticket_sync env db email_data email) \<noteq> Skipped
       \<and> fst (snd (create_ticket_sync env db email_data email)) = db
       \<and> take (Suc (length calls)) (snd (snd (create_ticket_sync env db email_data email)))
           = calls @ [CreateIssue
                        (tn @ '' - '' @ py_str (dict_get email_data ''resource_name'' (PStr ''Unknown'')))
                        (dict_get email_data ''generated_summary'' (PStr []))
                        (convert_priority_to_jira (dict_get email_data ''priority'' (PStr ''Medium'')))]"
proof -
  have sc: "should_create_ticket env db (PStr tn)
           (dict_get email_data ''resource_name'' (PStr ''Unknown''))
           (dict_get email_data ''email_id'' (PStr [])) = Inr ((True, None), calls)"
    using undetermined
    by (auto simp: should_create_ticket_def find_previous_jira_ticket_def is_ticket_open_def
        get_ticket_status_def)
  show ?thesis
    using trigger sc
    by (auto simp: create_ticket_sync_def Let_def split: sum.splits)
qed

theorem undetermined_status_creates_witness:
  "create_ticket_sync (example_actioner\<lparr>lookup_error := Some (Raised ''db down'')\<rparr>)
     ticketed_db example_payload ''Monitoring.AI@bitzer.de''
     = (Created ''MAI-101'' (PStr ''hostA'') ''General'' ''Monitoring.AI@bitzer.de'', ticketed_db,
        [CreateIssue ''High CPU - hostA'' (PStr (''CPU is high'' @ RECOMMENDED_SEP @ ''Restart''))
           ''Highest'',
         AssignByEmail ''MAI-101'' ''Monitoring.AI@bitzer.de'',
         AttachOriginal ''MAI-101'' (PStr ''/mail/e2.msg'')])
   \<and> fst (create_ticket_sync (example_actioner\<lparr>issue_status := (\<lambda>t. Inl (Raised ''timeout''))\<rparr>)
            ticketed_db example_payload ''Monitoring.AI@bitzer.de'') \<noteq> Skipped"
proof -
  have tr: "dict_get example_payload ''trigger_name'' (PStr []) = PStr ''High CPU''"
    by code_simp
  have u1: "(\<exists>e. lookup_error (example_actioner\<lparr>lookup_error := Some (Raised ''db down'')\<rparr>) = Some e
               \<and> ([] :: tracker_call list) = [])
        \<or> (\<exists>ticket e. find_previous_jira_ticket
                          (example_actioner\<lparr>lookup_error := Some (Raised ''db down'')\<rparr>)
                          ticketed_db (PStr ''High CPU'')
                          (dict_get example_payload ''resource_name'' (PStr ''Unknown''))
                          (dict_get example_payload ''email_id'' (PStr [])) = Some ticket
                     \<and> issue_status (example_actioner\<lparr>lookup_error := Some (Raised ''db down'')\<rparr>)
                          ticket = Inl e
                     \<and> [] = [GetIssue ticket])"
    by simp
  have pr: "find_previous_jira_ticket
              (example_actioner\<lparr>issue_status := (\<lambda>t. Inl (Raised ''timeout''))\<rparr>)
              ticketed_db (PStr ''High CPU'')
              (dict_get example_payload ''resource_name'' (PStr ''Unknown''))
              (dict_get example_payload ''email_id'' (PStr [])) = Some ''MAI-100''"
    by code_simp
  have u2: "(\<exists>e. lookup_error (example_actioner\<lparr>issue_status := (\<lambda>t. Inl (Raised ''timeout''))\<rparr>)
                 = Some e \<and> [GetIssue ''MAI-100''] = [])
        \<or> (\<exists>ticket e. find_previous_jira_ticket
                          (example_actioner\<lparr>issue_status := (\<lambda>t. Inl (Raised ''timeout''))\<rparr>)
                          ticketed_db (PStr ''High CPU'')
                          (dict_get example_payload ''resource_name'' (PStr ''Unknown''))
                          (dict_get example_payload ''email_id'' (PStr [])) = Some ticket
                     \<and> issue_status (example_actioner\<lparr>issue_status := (\<lambda>t. Inl (Raised ''timeout''))\<rparr>)
                          ticket = Inl e
                     \<and> [GetIssue ''MAI-100''] = [GetIssue ticket])"
    using pr by simp
  have run: "create_ticket_sync (example_actioner\<lparr>lookup_error := Some (Raised ''db down'')\<rparr>)
     ticketed_db example_payload ''Monitoring.AI@bitzer.de''
     = (Created ''MAI-101'' (PStr ''hostA'') ''General'' ''Monitoring.AI@bitzer.de'', ticketed_db,
        [CreateIssue ''High CPU - hostA'' (PStr (''CPU is high'' @ RECOMMENDED_SEP @ ''Restart''))
           ''Highest'',
         AssignByEmail ''MAI-101'' ''Monitoring.AI@bitzer.de'',
         AttachOriginal ''MAI-101'' (PStr ''/mail/e2.msg'')])"
    by code_simp
  from undetermined_status_creates [OF tr u1, of "''Monitoring.AI@bitzer.de''"]
    undetermined_status_creates [OF tr u2, of "''Monitoring.AI@bitzer.de''"]
  show ?thesis using run by simp
qed

section \<open>The ingester\<close>

subsection \<open>The fetch window\<close>

text \<open>
  \<open>scheduler.py\<close>, \<open>CronJobScheduler.outlook_job\<close>, lines 279-305. The newest JobTable row
  is read and its \<open>last_run_time\<close> parsed (an empty table, a NULL \<open>last_run_time\<close> or a
  failing query raise, and the \<open>except\<close> branch runs); line 291 then assigns
  \<open>last_run = datetime.now() - timedelta(hours=7)\<close>. \<open>job_lookup_error\<close> is the exception
  of the query, if it raises; \<open>current\<close> is \<open>datetime.now()\<close>.
\<close>

fun latest_job :: "job_row list \<Rightarrow> job_row option" where
  "latest_job [] = None"
| "latest_job (j # js) =
     (case latest_job js of
        None \<Rightarrow> Some j
      | Some k \<Rightarrow> if job_id k > job_id j then Some k else Some j)"

definition window_floor :: "exn option \<Rightarrow> timestamp \<Rightarrow> database \<Rightarrow> timestamp" where
  "window_floor job_lookup_error current db =
     (case job_lookup_error of
        Some e \<Rightarrow> current - 8 * HOUR
      | None \<Rightarrow>
          (case latest_job (job_table db) of
             None \<Rightarrow> current - 8 * HOUR
           | Some last_job \<Rightarrow>
               (case last_run_time last_job of
                  None \<Rightarrow> current - 8 * HOUR
                | Some parsed \<Rightarrow> current - 7 * HOUR)))"

text \<open>
  The restriction \<open>[ReceivedTime] > 'dd/mm/yyyy HH:MM'\<close> prints the floor to the minute;
  the messages it selects are sorted by received time, ascending.
\<close>

definition MINUTE :: int where
  "MINUTE = 60000000"

definition to_minute :: "timestamp \<Rightarrow> timestamp" where
  "to_minute t = (t div MINUTE) * MINUTE"

definition fetch_window :: "exn option \<Rightarrow> timestamp \<Rightarrow> database \<Rightarrow> timestamp list \<Rightarrow> timestamp list" where
  "fetch_window job_lookup_error current db received =
     sort (filter (\<lambda>t. t > to_minute (window_floor job_lookup_error current db)) received)"

subsection \<open>The message key\<close>

text \<open>
  A \<open>datetime\<close> by its calendar fields; \<open>tzinfo\<close> is the UTC offset in minutes, \<open>None\<close> for
  a naive value. \<open>isoformat\<close> prints \<open>YYYY-MM-DDTHH:MM:SS\<close>, the microseconds when they
  are not zero, and the offset when there is one.
\<close>

record pydatetime =
  year :: nat
  month :: nat
  day :: nat
  hour :: nat
  minute :: nat
  second :: nat
  microsecond :: nat
  tzinfo :: "int option"

definition digit :: "nat \<Rightarrow> char" where
  "digit n = ascii_digits ! (n mod 10)"

definition dec2 :: "nat \<Rightarrow> string" where
  "dec2 n = [digit (n div 10), digit n]"

definition dec4 :: "nat \<Rightarrow> string" where
  "dec4 n = dec2 (n div 100) @ dec2 n"

definition dec6 :: "nat \<Rightarrow> string" where
  "dec6 n = dec2 (n div 10000) @ dec4 n"

definition isoformat :: "pydatetime \<Rightarrow> string" where
  "isoformat d =
     dec4 (year d) @ ''-'' @ dec2 (month d) @ ''-'' @ dec2 (day d) @ ''T''
     @ dec2 (hour d) @ '':'' @ dec2 (minute d) @ '':'' @ dec2 (second d)
     @ (if microsecond d = 0 then [] else ''.'' @ dec6 (microsecond d))
     @ (case tzinfo d of
          None \<Rightarrow> []
        | Some off \<Rightarrow> (if off < 0 then ''-'' else ''+'')
                      @ dec2 (nat \<bar>off\<bar> div 60) @ '':'' @ dec2 (nat \<bar>off\<bar> mod 60))"

text \<open>
  \<open>db_schema2.py\<close>, \<open>generate_email_id\<close>: a naive time is taken as UTC; the digest of
  \<open>subject|timestamp\<close> is the id. \<open>sha256_hex\<close> is \<open>hashlib.sha256(b).hexdigest()\<close>.
\<close>

definition hash_input :: "string \<Rightarrow> pydatetime \<Rightarrow> string" where
  "hash_input subject received_time =
     (let received_time = (if tzinfo received_time = None
                           then received_time\<lparr>tzinfo := Some 0\<rparr> else received_time);
          timestamp_str = isoformat received_time
      in subject @ ''|'' @ timestamp_str)"

definition generate_email_id :: "(string \<Rightarrow> string) \<Rightarrow> string \<Rightarrow> pydatetime \<Rightarrow> string" where
  "generate_email_id sha256_hex subject received_time =
     sha256_hex (hash_input subject received_time)"

text \<open>
  \<open>scheduler.py\<close>, \<open>sanitize_filename\<close>: the characters \<open>\ / : * ? " < > |\<close> become
  underscores.
\<close>

definition sanitize_filename :: "string \<Rightarrow> string" where
  "sanitize_filename name =
     map (\<lambda>c. if c \<in> set (CHR 0x5C # CHR 0x22 # ''/:*?<>|'') then CHR ''_'' else c) name"

text \<open>
  A mailbox message: subject, body, sender address, and the received time, by its
  calendar fields and (for comparisons and for the \<open>received_at\<close> column, which is cut to
  milliseconds) as a timestamp.
\<close>

record outlook_message =
  Subject :: string
  Body :: string
  smtp_address :: string
  ReceivedTime :: pydatetime
  received_stamp :: timestamp

text \<open>\<open>db_functions.py\<close>, \<open>insert_raw_email\<close>: an existing row is returned as it is.\<close>

definition insert_raw_email :: "database \<Rightarrow> raw_email \<Rightarrow> raw_email \<times> database" where
  "insert_raw_email db new_email =
     (case find (\<lambda>r. raw_email_id r = raw_email_id new_email) (raw_emails db) of
        Some row \<Rightarrow> (row, db)
      | None \<Rightarrow> (new_email, db\<lparr>raw_emails := raw_emails db @ [new_email]\<rparr>))"

text \<open>
  \<open>outlook_job\<close>, lines 316-398, for one message: the allow-list of the newest
  Configuration row (\<open>outlook_email\<close>, comma-separated), the key, the saved file, the
  RawEmail upsert, and the item for Q1 unless the row says it was queued already.
  The result is the item, if any, and the store.
\<close>

definition allowed_senders :: "string \<Rightarrow> string list" where
  "allowed_senders outlook_email = map (\<lambda>e. py_lower (py_strip e)) (split_on '','' [] outlook_email)"

definition email_hash2 :: "(string \<Rightarrow> string) \<Rightarrow> outlook_message \<Rightarrow> string" where
  "email_hash2 sha256_hex msg =
     generate_email_id sha256_hex (sanitize_filename (Subject msg)) (ReceivedTime msg)"

definition ingest_message ::
  "(string \<Rightarrow> string) \<Rightarrow> string \<Rightarrow> string option \<Rightarrow> database \<Rightarrow> outlook_message
     \<Rightarrow> pydict option \<times> database" where
  "ingest_message sha256_hex folder_path outlook_email db msg =
     (case outlook_email of
        None \<Rightarrow> (None, db)
      | Some addresses \<Rightarrow>
          if py_lower (smtp_address msg) \<in> set (allowed_senders addresses) then
            (let file_path = folder_path @ ''/'' @ email_hash2 sha256_hex msg @ ''.msg'';
                 (email, db1) = insert_raw_email db
                    \<lparr>raw_email_id = PStr (email_hash2 sha256_hex msg),
                     raw_sender = PStr (smtp_address msg),
                     raw_subject = PStr (Subject msg), raw_body = PStr (Body msg),
                     raw_email_path = file_path,
                     raw_received_at = to_millis (received_stamp msg), raw_status = False\<rparr>
             in if raw_status email then (None, db1)
                else (Some [(''email_id'', raw_email_id email),
                            (''sender_address'', PStr (smtp_address msg)),
                            (''content'', PStr (Body msg)),
                            (''subject'', PStr (Subject msg)),
                            (''received_time'', PStr (isoformat (ReceivedTime msg))),
                            (''msg_path'', PStr file_path)], db1))
          else (None, db))"

text \<open>
  Claim C7 says the window floor is the newest JobTable row's \<open>last_run_time\<close>, and
  "now minus N hours" only when that row is unreadable. The code reads and parses
  \<open>last_run_time\<close> and then overwrites it: at 10:00, with a newest row whose
  \<open>last_run_time\<close> is 09:00, the floor is 03:00 (now minus 7 hours), and a message
  received at 07:00, before the last run, is fetched again.
\<close>

theorem window_floor_overwritten:
  "window_floor None (10 * HOUR)
     (empty_db\<lparr>job_table := [\<lparr>job_id = 1, last_run_time = Some (9 * HOUR)\<rparr>]\<rparr>) = 3 * HOUR
   \<and> fetch_window None (10 * HOUR)
     (empty_db\<lparr>job_table := [\<lparr>job_id = 1, last_run_time = Some (9 * HOUR)\<rparr>]\<rparr>)
     [7 * HOUR, 9 * HOUR + 30 * MINUTE] = [7 * HOUR, 9 * HOUR + 30 * MINUTE]"
  by code_simp

text \<open>A mail whose subject has a character that file names cannot hold.\<close>

definition disk_mail :: outlook_message where
  "disk_mail = \<lparr>Subject = ''Disk C: full'', Body = ''Free space below 5%'',
     smtp_address = ''ControlUp@example.org'',
     ReceivedTime = \<lparr>year = 2025, month = 1, day = 7, hour = 10, minute = 0, second = 0,
                     microsecond = 0, tzinfo = Some 0\<rparr>,
     received_stamp = 10 * HOUR\<rparr>"

definition show_digest :: "string \<Rightarrow> string" where
  "show_digest s = ''sha256('' @ s @ '')''"

text \<open>
  Claim C2, as stated: the id is the digest of the original subject, a bar and the
  received time. It is not: the ingester hashes the subject after
  \<open>sanitize_filename\<close>. For the subject \<open>Disk C: full\<close> the digest is taken of
  \<open>Disk C_ full|2025-01-07T10:00:00+00:00\<close>, not of \<open>Disk C: full|2025-01-07T10:00:00+00:00\<close>
  (the digest function is a parameter; \<open>show_digest\<close> in its place shows its argument).
\<close>

theorem email_id_counterexample:
  "email_hash2 show_digest disk_mail = show_digest ''Disk C_ full|2025-01-07T10:00:00+00:00''
   \<and> Subject disk_mail @ ''|'' @ isoformat (ReceivedTime disk_mail)
       = ''Disk C: full|2025-01-07T10:00:00+00:00''"
  by code_simp

text \<open>
  Claim C2, amended. For every mailbox message \<open>m\<close> of an allowed sender, the
  \<open>email_id\<close> is \<open>SHA256(sanitize_filename(m.subject) + "|" + t.isoformat())\<close>, where
  \<open>sanitize_filename\<close> replaces each of \<open>\ / : * ? " < > |\<close> by an underscore and \<open>t\<close> is
  the received time, taken as UTC when it has no time zone. After the message is
  ingested a RawEmail row with this key exists, the item queued for the classifier (if
  one is queued) carries the same key, and ingesting the same message again leaves the
  store as it is.
\<close>

theorem email_id_deterministic:
  assumes allowed: "py_lower (smtp_address msg) \<in> set (allowed_senders addresses)"
    and key: "key = sha256_hex (sanitize_filename (Subject msg) @ ''|''
                @ isoformat (if tzinfo (ReceivedTime msg) = None
                             then (ReceivedTime msg)\<lparr>tzinfo := Some 0\<rparr>
                             else ReceivedTime msg))"
    and once: "ingest_message sha256_hex folder (Some addresses) db msg = (queued, db1)"
  shows "email_hash2 sha256_hex msg = key
       \<and> (\<exists>row. find (\<lambda>r. raw_email_id r = PStr key) (raw_emails db1) = Some row)
       \<and> (queued = None \<or> (\<exists>item. queued = Some item \<and> map_of item ''email_id'' = Some (PStr key)))
       \<and> snd (ingest_message sha256_hex folder (Some addresses) db1 msg) = db1"
proof -
  have k: "email_hash2 sha256_hex msg = key"
    by (simp add: key email_hash2_def generate_email_id_def hash_input_def Let_def)
  define new_email where "new_email =
     \<lparr>raw_email_id = PStr key, raw_sender = PStr (smtp_address msg),
      raw_subject = PStr (Subject msg), raw_body = PStr (Body msg),
      raw_email_path = folder @ ''/'' @ key @ ''.msg'',
      raw_received_at = to_millis (received_stamp msg), raw_status = False\<rparr>"
  show ?thesis
  proof (cases "find (\<lambda>r. raw_email_id r = PStr key) (raw_emails db)")
    case None
    then have ins: "insert_raw_email db new_email
        = (new_email, db\<lparr>raw_emails := raw_emails db @ [new_email]\<rparr>)"
      by (simp add: insert_raw_email_def new_email_def)
    have db1: "db1 = db\<lparr>raw_emails := raw_emails db @ [new_email]\<rparr>"
      and q: "queued \<noteq> None \<and> map_of (the queued) ''email_id'' = Some (PStr key)"
      using once allowed ins k
      by (auto simp: ingest_message_def Let_def new_email_def)
    have f1: "find (\<lambda>r. raw_email_id r = PStr key) (raw_emails db1) = Some new_email"
      using None by (simp add: db1 find_append_none new_email_def)
    then have again: "insert_raw_email db1 new_email = (new_email, db1)"
      by (simp add: insert_raw_email_def new_email_def)
    have "snd (ingest_message sha256_hex folder (Some addresses) db1 msg) = db1"
      using allowed again k
      by (simp add: ingest_message_def Let_def new_email_def)
    with k f1 q show ?thesis by auto
  next
    case (Some row)
    then have ins: "insert_raw_email db new_email = (row, db)"
      by (simp add: insert_raw_email_def new_email_def)
    have db1: "db1 = db"
      and q: "queued = None \<or> (\<exists>item. queued = Some item \<and> map_of item ''email_id'' = Some (raw_email_id row))"
      using once allowed ins k
      by (auto simp: ingest_message_def Let_def new_email_def split: if_splits)
    have rk: "raw_email_id row = PStr key"
      using Some by (auto simp: find_Some_iff)
    have "snd (ingest_message sha256_hex folder (Some addresses) db1 msg) = db1"
      using allowed ins k db1
      by (simp add: ingest_message_def Let_def new_email_def)
    with k Some q rk db1 show ?thesis by auto
  qed
qed

theorem email_id_deterministic_witness:
  "email_hash2 show_digest disk_mail = show_digest ''Disk C_ full|2025-01-07T10:00:00+00:00''
   \<and> (\<exists>row. find (\<lambda>r. raw_email_id r
                         = PStr (show_digest ''Disk C_ full|2025-01-07T10:00:00+00:00''))
               (raw_emails (snd (ingest_message show_digest ''/mail''
                                   (Some ''ops@example.org, controlup@example.org'')
                                   empty_db disk_mail))) = Some row)
   \<and> snd (ingest_message show_digest ''/mail'' (Some ''ops@example.org, controlup@example.org'')
            (snd (ingest_message show_digest ''/mail''
                    (Some ''ops@example.org, controlup@example.org'') empty_db disk_mail))
            disk_mail)
       = snd (ingest_message show_digest ''/mail'' (Some ''ops@example.org, controlup@example.org'')
                empty_db disk_mail)"
proof -
  have al: "py_lower (smtp_address disk_mail)
              \<in> set (allowed_senders ''ops@example.org, controlup@example.org'')"
    by code_simp
  have ky: "show_digest ''Disk C_ full|2025-01-07T10:00:00+00:00''
      = show_digest (sanitize_filename (Subject disk_mail) @ ''|''
                @ isoformat (if tzinfo (ReceivedTime disk_mail) = None
                             then (ReceivedTime disk_mail)\<lparr>tzinfo := Some 0\<rparr>
                             else ReceivedTime disk_mail))"
    by code_simp
  have pr: "ingest_message show_digest ''/mail'' (Some ''ops@example.org, controlup@example.org'')
              empty_db disk_mail
      = (fst (ingest_message show_digest ''/mail''
                (Some ''ops@example.org, controlup@example.org'') empty_db disk_mail),
         snd (ingest_message show_digest ''/mail''
                (Some ''ops@example.org, controlup@example.org'') empty_db disk_mail))"
    by simp
  from email_id_deterministic [OF al ky pr]
  show ?thesis by blast
qed

section \<open>The trigger matcher\<close>

text \<open>
  \<open>TriggerMatcher\<close> of \<open>teams_integration.py\<close> compares a trigger name with the names
  stored in the database. \<open>_normalize_text\<close> lower-cases the text, deletes every
  \<open>controlup://\<close> link (\<open>re.sub(r'controlup://[^\s]+', '', text)\<close>: the prefix and at
  least one following character that is not whitespace, up to the next whitespace),
  turns every character that is neither a word character nor whitespace into a blank,
  and joins the whitespace-separated words with single blanks.
\<close>

function sub_links :: "string \<Rightarrow> string" where
  "sub_links [] = []"
| "sub_links (c # cs) =
     (if take 12 (c # cs) = ''controlup://'' \<and> drop 12 (c # cs) \<noteq> []
         \<and> \<not> isspace (hd (drop 12 (c # cs)))
      then sub_links (dropWhile (\<lambda>x. \<not> isspace x) (drop 12 (c # cs)))
      else c # sub_links cs)"
  by pat_completeness auto
termination
proof (relation "measure length")
  show "wf (measure length)" by simp
next
  fix c :: char and cs
  have "length (dropWhile (\<lambda>x. \<not> isspace x) (drop 12 (c # cs))) \<le> length (drop 12 (c # cs))"
    by (rule length_dropWhile_le)
  then show "(dropWhile (\<lambda>x. \<not> isspace x) (drop 12 (c # cs)), c # cs) \<in> measure length"
    by simp
next
  fix c :: char and cs
  show "(cs, c # cs) \<in> measure length" by simp
qed

declare sub_links.simps [simp del]

definition sub_punct :: "string \<Rightarrow> string" where
  "sub_punct s = map (\<lambda>c. if isword c \<or> isspace c then c else CHR '' '') s"

definition normalize_text :: "string \<Rightarrow> string" where
  "normalize_text text =
     (if text = [] then []
      else py_strip (join_space (py_split (sub_punct (sub_links (py_lower text))))))"

text \<open>\<open>_tokenize\<close>: the set of words of a normalised text.\<close>

definition tokenize :: "string \<Rightarrow> string set" where
  "tokenize text = (if text \<noteq> [] then set (py_split text) else {})"

subsection \<open>The sequence ratio\<close>

text \<open>
  The sequence part of the score is \<open>SequenceMatcher(None, norm_input, norm_db).ratio()\<close>
  of Python's \<open>difflib\<close>. The matcher is built without a junk predicate, so its junk set
  is empty, and with \<open>autojunk\<close> on: \<open>__chain_b\<close> maps each character of \<open>b\<close> to the
  ascending list of its positions and, when \<open>b\<close> has 200 characters or more, forgets the
  characters that occur more than \<open>len(b) // 100 + 1\<close> times.
\<close>

type_synonym match = "nat \<times> nat \<times> nat"

definition chain_b :: "string \<Rightarrow> char \<Rightarrow> nat list" where
  "chain_b b elt =
     (let idxs = filter (\<lambda>i. b ! i = elt) [0..<length b]; n = length b
      in if n \<ge> 200 \<and> length idxs > n div 100 + 1 then [] else idxs)"

text \<open>
  \<open>find_longest_match\<close>: for each \<open>i\<close> in \<open>range(alo, ahi)\<close> the inner loop visits the
  positions \<open>j\<close> of \<open>a[i]\<close> in \<open>b\<close>, skipping those below \<open>blo\<close> and stopping at the first
  one not below \<open>bhi\<close>; \<open>j2len\<close> holds the lengths of the matches that end in the previous
  row, and the best triple is replaced only by a strictly longer match. The match is
  then extended to the left and to the right over equal characters. The two further
  loops of the library extend over junk characters only, and there are none.
  In \<open>scan_j\<close> the index \<open>i - k + 1\<close> is written \<open>i + 1 - k\<close>: \<open>k\<close> never exceeds
  \<open>i - alo + 1\<close> (lemma \<open>fold_scan_i_scanned\<close>), so nothing is truncated.
\<close>

definition j2lenget :: "(nat \<rightharpoonup> nat) \<Rightarrow> nat \<Rightarrow> nat" where
  "j2lenget j2len j =
     (if j = 0 then 0 else case j2len (j - 1) of None \<Rightarrow> 0 | Some k \<Rightarrow> k)"

definition scan_j ::
  "(nat \<rightharpoonup> nat) \<Rightarrow> nat \<Rightarrow> nat \<Rightarrow> (nat \<rightharpoonup> nat) \<times> match \<Rightarrow> (nat \<rightharpoonup> nat) \<times> match" where
  "scan_j j2len i j = (\<lambda>(newj2len, besti, bestj, bestsize).
     let k = j2lenget j2len j + 1
     in (newj2len(j \<mapsto> k),
         if k > bestsize then (i + 1 - k, j + 1 - k, k) else (besti, bestj, bestsize)))"

definition scan_i ::
  "string \<Rightarrow> string \<Rightarrow> nat \<Rightarrow> nat \<Rightarrow> nat \<Rightarrow> (nat \<rightharpoonup> nat) \<times> match \<Rightarrow> (nat \<rightharpoonup> nat) \<times> match" where
  "scan_i a b blo bhi i = (\<lambda>(j2len, best).
     fold (scan_j j2len i)
       (filter (\<lambda>j. \<not> j < blo) (takeWhile (\<lambda>j. \<not> j \<ge> bhi) (chain_b b (a ! i))))
       (Map.empty, best))"

function extend_left :: "string \<Rightarrow> string \<Rightarrow> nat \<Rightarrow> nat \<Rightarrow> match \<Rightarrow> match" where
  "extend_left a b alo blo (besti, bestj, bestsize) =
     (if besti > alo \<and> bestj > blo \<and> a ! (besti - 1) = b ! (bestj - 1)
      then extend_left a b alo blo (besti - 1, bestj - 1, bestsize + 1)
      else (besti, bestj, bestsize))"
  by pat_completeness auto
termination
  by (relation "measure (\<lambda>(a, b, alo, blo, besti, bestj, bestsize). besti)") auto

declare extend_left.simps [simp del]

function extend_right :: "string \<Rightarrow> string \<Rightarrow> nat \<Rightarrow> nat \<Rightarrow> match \<Rightarrow> match" where
  "extend_right a b ahi bhi (besti, bestj, bestsize) =
     (if besti + bestsize < ahi \<and> bestj + bestsize < bhi
         \<and> a ! (besti + bestsize) = b ! (bestj + bestsize)
      then extend_right a b ahi bhi (besti, bestj, bestsize + 1)
      else (besti, bestj, bestsize))"
  by pat_completeness auto
termination
  by (relation "measure (\<lambda>(a, b, ahi, bhi, besti, bestj, bestsize). ahi - (besti + bestsize))")
     auto

declare extend_right.simps [simp del]

definition find_longest_match ::
  "string \<Rightarrow> string \<Rightarrow> nat \<Rightarrow> nat \<Rightarrow> nat \<Rightarrow> nat \<Rightarrow> match" where
  "find_longest_match a b alo ahi blo bhi =
     extend_right a b ahi bhi
       (extend_left a b alo blo
          (snd (fold (scan_i a b blo bhi) [alo..<ahi] (Map.empty, alo, blo, 0))))"

definition scanned :: "nat \<Rightarrow> nat \<Rightarrow> (nat \<rightharpoonup> nat) \<times> match \<Rightarrow> bool" where
  "scanned alo n = (\<lambda>(j2len, besti, bestj, bestsize).
     alo \<le> besti \<and> besti + bestsize \<le> alo + n \<and> (\<forall>j k. j2len j = Some k \<longrightarrow> k \<le> n))"

lemma scan_j_scanned:
  assumes "\<forall>j k. j2len j = Some k \<longrightarrow> k \<le> n" "scanned alo (Suc n) s"
  shows "scanned alo (Suc n) (scan_j j2len (alo + n) j s)"
proof -
  have "j2lenget j2len j \<le> n"
    using assms(1) by (auto simp: j2lenget_def split: option.splits)
  then show ?thesis
    using assms(2) by (cases s) (auto simp: scanned_def scan_j_def Let_def)
qed

lemma fold_scan_j_scanned:
  assumes "\<forall>j k. j2len j = Some k \<longrightarrow> k \<le> n"
  shows "scanned alo (Suc n) s \<Longrightarrow> scanned alo (Suc n) (fold (scan_j j2len (alo + n)) js s)"
  by (induction js arbitrary: s) (simp_all add: scan_j_scanned [OF assms])

lemma scan_i_scanned:
  assumes "scanned alo n s"
  shows "scanned alo (Suc n) (scan_i a b blo bhi (alo + n) s)"
proof -
  obtain j2len best where s: "s = (j2len, best)" by (cases s)
  from assms have v: "\<forall>j k. j2len j = Some k \<longrightarrow> k \<le> n"
    by (cases best) (simp add: s scanned_def)
  from assms have "scanned alo (Suc n) (Map.empty, best)"
    by (cases best) (simp add: s scanned_def)
  then show ?thesis
    unfolding s scan_i_def prod.case by (rule fold_scan_j_scanned [OF v])
qed

lemma fold_scan_i_scanned:
  "scanned alo n (fold (scan_i a b blo bhi) [alo..<alo + n] (Map.empty, alo, blo, 0))"
proof (induction n)
  case 0
  show ?case by (simp add: scanned_def)
next
  case (Suc n)
  then show ?case by (simp add: scan_i_scanned)
qed

lemma extend_left_bounds:
  "extend_left a b alo blo (besti, bestj, bestsize) = (i, j, k) \<Longrightarrow> alo \<le> besti \<Longrightarrow>
     alo \<le> i \<and> i + k = besti + bestsize"
proof (induction a b alo blo "(besti, bestj, bestsize)" arbitrary: besti bestj bestsize
       rule: extend_left.induct)
  case (1 a b alo blo besti bestj bestsize)
  show ?case
  proof (cases "besti > alo \<and> bestj > blo \<and> a ! (besti - 1) = b ! (bestj - 1)")
    case True
    with 1(2) have "extend_left a b alo blo (besti - 1, bestj - 1, bestsize + 1) = (i, j, k)"
      by (subst (asm) extend_left.simps) simp
    from 1(1) [OF True this] True show ?thesis by auto
  next
    case False
    with 1(2) have "(besti, bestj, bestsize) = (i, j, k)"
      by (subst (asm) extend_left.simps) (simp only: if_False)
    with 1(3) show ?thesis by auto
  qed
qed

lemma extend_right_bounds:
  "extend_right a b ahi bhi (besti, bestj, bestsize) = (i, j, k) \<Longrightarrow>
     i = besti \<and> (k = bestsize \<or> i + k \<le> ahi)"
proof (induction a b ahi bhi "(besti, bestj, bestsize)" arbitrary: besti bestj bestsize
       rule: extend_right.induct)
  case (1 a b ahi bhi besti bestj bestsize)
  show ?case
  proof (cases "besti + bestsize < ahi \<and> bestj + bestsize < bhi
         \<and> a ! (besti + bestsize) = b ! (bestj + bestsize)")
    case True
    with 1(2) have "extend_right a b ahi bhi (besti, bestj, bestsize + 1) = (i, j, k)"
      by (subst (asm) extend_right.simps) simp
    from 1(1) [OF True this] True show ?thesis by auto
  next
    case False
    with 1(2) have "(besti, bestj, bestsize) = (i, j, k)"
      by (subst (asm) extend_right.simps) (simp only: if_False)
    then show ?thesis by auto
  qed
qed

lemma find_longest_match_bounds:
  assumes m: "find_longest_match a b alo ahi blo bhi = (i, j, k)" and k: "k \<noteq> 0"
  shows "alo \<le> i \<and> i + k \<le> ahi"
proof (cases "alo \<le> ahi")
  case True
  obtain j2len bi bj bs
    where f: "fold (scan_i a b blo bhi) [alo..<ahi] (Map.empty, alo, blo, 0) = (j2len, bi, bj, bs)"
    by (metis prod_cases4)
  obtain li lj lk where l: "extend_left a b alo blo (bi, bj, bs) = (li, lj, lk)"
    by (metis prod_cases3)
  from m have r: "extend_right a b ahi bhi (li, lj, lk) = (i, j, k)"
    by (simp add: find_longest_match_def f l)
  from True obtain n where n: "ahi = alo + n" using le_Suc_ex by blast
  from fold_scan_i_scanned [of alo n a b blo bhi]
  have b: "alo \<le> bi" "bi + bs \<le> ahi"
    by (simp_all add: n [symmetric] f scanned_def)
  from extend_left_bounds [OF l b(1)] have lb: "alo \<le> li" "li + lk = bi + bs" by simp_all
  from extend_right_bounds [OF r] have rb: "i = li" "k = lk \<or> i + k \<le> ahi" by blast+
  from b lb rb show ?thesis by auto
next
  case False
  then have "find_longest_match a b alo ahi blo bhi = (alo, blo, 0)"
    by (simp add: find_longest_match_def extend_left.simps extend_right.simps)
  with m k show ?thesis by simp
qed

text \<open>
  \<open>get_matching_blocks\<close>: the work list \<open>queue\<close> is a stack (\<open>queue.pop()\<close> takes the
  element appended last); here its top is the head of the list. The blocks found are
  sorted, adjacent blocks are merged, and the sentinel \<open>(la, lb, 0)\<close> is appended.
  The loop ends because every block found lies inside the range it was searched in
  (lemma \<open>find_longest_match_bounds\<close>).
\<close>

function blocks_loop ::
  "string \<Rightarrow> string \<Rightarrow> (nat \<times> nat \<times> nat \<times> nat) list \<Rightarrow> match list \<Rightarrow> match list" where
  "blocks_loop a b [] matching_blocks = matching_blocks"
| "blocks_loop a b ((alo, ahi, blo, bhi) # queue) matching_blocks =
     (case find_longest_match a b alo ahi blo bhi of (i, j, k) \<Rightarrow>
        if k \<noteq> 0
        then blocks_loop a b
               ((if i + k < ahi \<and> j + k < bhi then [(i + k, ahi, j + k, bhi)] else []) @
                (if alo < i \<and> blo < j then [(alo, i, blo, j)] else []) @ queue)
               (matching_blocks @ [(i, j, k)])
        else blocks_loop a b queue matching_blocks)"
  by pat_completeness auto
termination
proof (relation "measure (\<lambda>(a, b, queue, matching_blocks).
         sum_list (map (\<lambda>(alo, ahi, blo, bhi). 2 * (ahi - alo) + 1) queue))", goal_cases)
  case 1
  show ?case by simp
next
  case (2 a b alo ahi blo bhi queue matching_blocks i jk j k)
  then have "find_longest_match a b alo ahi blo bhi = (i, j, k)" by simp
  from find_longest_match_bounds [OF this 2(3)] 2(3) show ?case by auto
next
  case 3
  then show ?case by simp
qed

declare blocks_loop.simps [simp del]

definition merge_step :: "match \<Rightarrow> match \<times> match list \<Rightarrow> match \<times> match list" where
  "merge_step = (\<lambda>(i2, j2, k2) ((i1, j1, k1), non_adjacent).
     if i1 + k1 = i2 \<and> j1 + k1 = j2 then ((i1, j1, k1 + k2), non_adjacent)
     else ((i2, j2, k2), if k1 \<noteq> 0 then non_adjacent @ [(i1, j1, k1)] else non_adjacent))"

definition get_matching_blocks :: "string \<Rightarrow> string \<Rightarrow> match list" where
  "get_matching_blocks a b =
     (let la = length a; lb = length b;
          matching_blocks = sort (blocks_loop a b [(0, la, 0, lb)] [])
      in case fold merge_step matching_blocks ((0, 0, 0), []) of
           ((i1, j1, k1), non_adjacent) \<Rightarrow>
             (if k1 \<noteq> 0 then non_adjacent @ [(i1, j1, k1)] else non_adjacent) @ [(la, lb, 0)])"

text \<open>
  \<open>ratio\<close> is \<open>2.0 * matches / length\<close> for the total size of the matching blocks, and
  \<open>1.0\<close> when both strings are empty. Python floats are modelled by the reals.
\<close>

definition calculate_ratio :: "nat \<Rightarrow> nat \<Rightarrow> real" where
  "calculate_ratio matches len = (if len \<noteq> 0 then 2 * real matches / real len else 1)"

definition matched :: "string \<Rightarrow> string \<Rightarrow> nat" where
  "matched a b = sum_list (map (\<lambda>(i, j, k). k) (get_matching_blocks a b))"

definition ratio :: "string \<Rightarrow> string \<Rightarrow> real" where
  "ratio a b = calculate_ratio (matched a b) (length a + length b)"

subsection \<open>The similarity score\<close>

text \<open>
  \<open>_calculate_similarity\<close>: \<open>0.0\<close> when either text or either normalised text is empty,
  \<open>1.0\<close> when the normalised texts are equal, otherwise the weighted sum of the sequence
  ratio and the Jaccard index of the two word sets.
\<close>

definition calculate_similarity :: "string \<Rightarrow> string \<Rightarrow> real" where
  "calculate_similarity input_text db_text =
     (if input_text = [] \<or> db_text = [] then 0
      else let norm_input = normalize_text input_text; norm_db = normalize_text db_text
           in if norm_input = [] \<or> norm_db = [] then 0
              else if norm_input = norm_db then 1
              else let seq_ratio = ratio norm_input norm_db;
                       tokens_input = tokenize norm_input;
                       tokens_db = tokenize norm_db;
                       jaccard =
                         (if tokens_input \<noteq> {} \<and> tokens_db \<noteq> {}
                          then let intersection = card (tokens_input \<inter> tokens_db);
                                   union = card (tokens_input \<union> tokens_db)
                               in if union > 0 then real intersection / real union else 0
                          else 0)
                   in seq_ratio * (45 / 100) + jaccard * (55 / 100))"

subsection \<open>Normalised texts\<close>

text \<open>
  The result of \<open>_normalize_text\<close> is a list of non-empty words of lower-case word
  characters joined by single blanks, and such a text is left unchanged.
\<close>

lemma lower_char_idem: "lower_char (lower_char c) = lower_char c"
  unfolding lower_char_def ascii_upper_def ascii_lower_def latin1_upper_def latin1_lower_def
  by simp

lemma isword_not_space: "isword c \<Longrightarrow> \<not> isspace c"
  unfolding isword_def isspace_def ascii_upper_def ascii_lower_def ascii_digits_def
    latin1_upper_def latin1_lower_def latin1_word_def
  by auto

lemma isword_not_colon: "isword c \<Longrightarrow> c \<noteq> CHR '':''"
  unfolding isword_def ascii_upper_def ascii_lower_def ascii_digits_def
    latin1_upper_def latin1_lower_def latin1_word_def
  by auto

lemma space_is_space: "isspace (CHR '' '')"
  by (simp add: isspace_def)

lemma lower_space: "lower_char (CHR '' '') = CHR '' ''"
  unfolding lower_char_def ascii_upper_def ascii_lower_def latin1_upper_def latin1_lower_def
  by simp

lemma sub_links_no_colon: "CHR '':'' \<notin> set s \<Longrightarrow> sub_links s = s"
proof (induction s)
  case Nil
  then show ?case by (simp add: sub_links.simps)
next
  case (Cons c cs)
  have "take 12 (c # cs) \<noteq> ''controlup://''"
  proof
    assume "take 12 (c # cs) = ''controlup://''"
    then have "CHR '':'' \<in> set (take 12 (c # cs))" by (simp only: ) simp
    then have "CHR '':'' \<in> set (c # cs)" by (rule in_set_takeD)
    with Cons.prems show False by simp
  qed
  then have ne: "(take 12 (c # cs) = ''controlup://'' \<and> drop 12 (c # cs) \<noteq> []
         \<and> \<not> isspace (hd (drop 12 (c # cs)))) = False"
    by blast
  have "sub_links (c # cs) = c # sub_links cs"
    by (subst sub_links.simps) (simp only: ne if_False)
  with Cons show ?case by simp
qed

definition good_tok :: "string \<Rightarrow> bool" where
  "good_tok t = (t \<noteq> [] \<and> (\<forall>c \<in> set t. \<not> isspace c))"

lemma py_split_nil: "py_split [] = []"
  by (subst py_split.simps) simp

lemma py_split_space: "isspace c \<Longrightarrow> py_split (c # s) = py_split s"
  by (subst py_split.simps, subst (2) py_split.simps) simp

lemma py_split_tok:
  assumes g: "good_tok t" and r: "rest = [] \<or> isspace (hd rest)"
  shows "py_split (t @ rest) = t # py_split rest"
proof -
  from g obtain c cs where t: "t = c # cs" and nc: "\<not> isspace c"
    by (cases t) (auto simp: good_tok_def)
  from g have all: "\<And>x. x \<in> set t \<Longrightarrow> \<not> isspace x" by (simp add: good_tok_def)
  have tw0: "takeWhile (\<lambda>x. \<not> isspace x) t = t"
    using all by (simp add: takeWhile_eq_all_conv)
  have tw: "takeWhile (\<lambda>x. \<not> isspace x) (t @ rest) = t"
  proof (cases rest)
    case Nil
    then show ?thesis using tw0 by simp
  next
    case (Cons x xs)
    with r have "isspace x" by simp
    then have "takeWhile (\<lambda>x. \<not> isspace x) (t @ x # xs) = takeWhile (\<lambda>x. \<not> isspace x) t"
      by (intro takeWhile_tail) simp
    with Cons tw0 show ?thesis by simp
  qed
  have dw1: "dropWhile (\<lambda>x. \<not> isspace x) rest = rest"
    using r by (cases rest) auto
  have dw: "dropWhile (\<lambda>x. \<not> isspace x) (t @ rest) = rest"
    using all dw1 by (simp add: dropWhile_append2)
  have d0: "dropWhile isspace (t @ rest) = c # (cs @ rest)"
    using t nc by simp
  have "py_split (t @ rest)
      = takeWhile (\<lambda>x. \<not> isspace x) (c # (cs @ rest))
        # py_split (dropWhile (\<lambda>x. \<not> isspace x) (c # (cs @ rest)))"
    by (subst py_split.simps) (simp only: d0 list.case)
  also have "c # (cs @ rest) = t @ rest" using t by simp
  finally show ?thesis using tw dw by simp
qed

lemma py_split_join: "list_all good_tok ts \<Longrightarrow> py_split (join_space ts) = ts"
proof (induction ts rule: join_space.induct)
  case 1
  then show ?case by (simp add: py_split_nil)
next
  case (2 t)
  then show ?case using py_split_tok [of t "[]"] by (simp add: py_split_nil)
next
  case (3 t u ts)
  have "py_split (t @ CHR '' '' # join_space (u # ts))
      = t # py_split (CHR '' '' # join_space (u # ts))"
    using 3 by (intro py_split_tok) (auto simp: space_is_space)
  then show ?case using 3 by (simp add: py_split_space space_is_space)
qed

lemma py_split_good: "list_all good_tok (py_split s)"
proof (induction s rule: py_split.induct)
  case (1 s)
  show ?case
  proof (cases "dropWhile isspace s")
    case Nil
    then have "py_split s = []" by (subst py_split.simps) (simp only: list.case)
    then show ?thesis by simp
  next
    case (Cons c cs)
    then have nc: "\<not> isspace c" using hd_dropWhile [of isspace s] by auto
    have g: "good_tok (takeWhile (\<lambda>x. \<not> isspace x) (c # cs))"
      using nc by (auto simp: good_tok_def dest: set_takeWhileD)
    have ih: "list_all good_tok (py_split (dropWhile (\<lambda>x. \<not> isspace x) (c # cs)))"
      by (rule 1 [OF Cons])
    have "py_split s = takeWhile (\<lambda>x. \<not> isspace x) (c # cs)
        # py_split (dropWhile (\<lambda>x. \<not> isspace x) (c # cs))"
      by (subst py_split.simps) (simp only: Cons list.case)
    then show ?thesis using g ih by simp
  qed
qed

lemma py_split_chars: "t \<in> set (py_split s) \<Longrightarrow> set t \<subseteq> set s"
proof (induction s arbitrary: t rule: py_split.induct)
  case (1 s)
  show ?case
  proof (cases "dropWhile isspace s")
    case Nil
    then have "py_split s = []" by (subst py_split.simps) (simp only: list.case)
    with 1(2) show ?thesis by simp
  next
    case (Cons c cs)
    have sub: "set (c # cs) \<subseteq> set s"
      using set_dropWhileD [of _ isspace s] unfolding Cons by blast
    have eq: "py_split s = takeWhile (\<lambda>x. \<not> isspace x) (c # cs)
        # py_split (dropWhile (\<lambda>x. \<not> isspace x) (c # cs))"
      by (subst py_split.simps) (simp only: Cons list.case)
    from 1(2) have "t = takeWhile (\<lambda>x. \<not> isspace x) (c # cs)
        \<or> t \<in> set (py_split (dropWhile (\<lambda>x. \<not> isspace x) (c # cs)))"
      unfolding eq by simp
    then show ?thesis
    proof
      assume "t = takeWhile (\<lambda>x. \<not> isspace x) (c # cs)"
      then have "set t \<subseteq> set (c # cs)" using set_takeWhileD by fastforce
      with sub show ?thesis by blast
    next
      assume "t \<in> set (py_split (dropWhile (\<lambda>x. \<not> isspace x) (c # cs)))"
      then have "set t \<subseteq> set (dropWhile (\<lambda>x. \<not> isspace x) (c # cs))"
        by (rule 1(1) [OF Cons])
      then have "set t \<subseteq> set (c # cs)" using set_dropWhileD by fastforce
      with sub show ?thesis by blast
    qed
  qed
qed


lemma set_sub_links: "set (sub_links s) \<subseteq> set s"
proof (induction s rule: sub_links.induct)
  case 1
  then show ?case by (simp add: sub_links.simps)
next
  case (2 c cs)
  show ?case
  proof (cases "take 12 (c # cs) = ''controlup://'' \<and> drop 12 (c # cs) \<noteq> []
         \<and> \<not> isspace (hd (drop 12 (c # cs)))")
    case True
    have eq: "sub_links (c # cs) = sub_links (dropWhile (\<lambda>x. \<not> isspace x) (drop 12 (c # cs)))"
      by (subst sub_links.simps) (rule if_P [OF True])
    have "set (sub_links (dropWhile (\<lambda>x. \<not> isspace x) (drop 12 (c # cs))))
        \<subseteq> set (dropWhile (\<lambda>x. \<not> isspace x) (drop 12 (c # cs)))"
      by (rule 2(1) [OF True])
    also have "\<dots> \<subseteq> set (drop 12 (c # cs))" using set_dropWhileD by fastforce
    also have "\<dots> \<subseteq> set (c # cs)" by (rule set_drop_subset)
    finally show ?thesis unfolding eq .
  next
    case False
    have eq: "sub_links (c # cs) = c # sub_links cs"
      by (subst sub_links.simps) (rule if_not_P [OF False])
    show ?thesis unfolding eq using 2(2) [OF False] by auto
  qed
qed

lemma join_space_chars: "set (join_space ts) \<subseteq> \<Union> (set ` set ts) \<union> {CHR '' ''}"
  by (induction ts rule: join_space.induct) auto

lemma join_space_ends:
  "list_all good_tok ts \<Longrightarrow> join_space ts \<noteq> [] \<Longrightarrow>
     \<not> isspace (hd (join_space ts)) \<and> \<not> isspace (last (join_space ts))"
proof (induction ts rule: join_space.induct)
  case 1
  then show ?case by simp
next
  case (2 t)
  then show ?case by (cases t) (auto simp: good_tok_def)
next
  case (3 t u ts)
  from 3(2) have gt: "good_tok t" and gr: "list_all good_tok (u # ts)" by simp_all
  from gr have "join_space (u # ts) \<noteq> []"
    by (cases ts) (auto simp: good_tok_def)
  with 3(1) gr have l: "\<not> isspace (last (join_space (u # ts)))" 
    and ne: "join_space (u # ts) \<noteq> []" by simp_all
  from gt have "\<not> isspace (hd t)" "t \<noteq> []" by (cases t; auto simp: good_tok_def)+
  then show ?case using l ne by (simp add: hd_append)
qed

lemma py_strip_id:
  assumes "s = [] \<or> (\<not> isspace (hd s) \<and> \<not> isspace (last s))"
  shows "py_strip s = s"
proof (cases s)
  case Nil
  then show ?thesis by (simp add: py_strip_def)
next
  case (Cons c cs)
  with assms have h: "\<not> isspace (hd s)" and l: "\<not> isspace (last s)" by auto
  have d1: "dropWhile isspace s = s" using h Cons by simp
  obtain a as where r: "rev s = a # as" using Cons by (cases "rev s") auto
  have "hd (rev s) = last s" using Cons by (simp add: hd_rev)
  with r have "a = last s" by simp
  with l have d2: "dropWhile isspace (rev s) = rev s" unfolding r by simp
  show ?thesis by (simp add: py_strip_def d1 d2)
qed

lemma normalize_tokens:
  assumes x: "x \<noteq> []"
  shows "normalize_text x = join_space (py_split (sub_punct (sub_links (py_lower x))))"
  using join_space_ends [OF py_split_good] x
  by (auto simp: normalize_text_def intro!: py_strip_id)

lemma token_chars:
  assumes "t \<in> set (py_split (sub_punct (sub_links (py_lower x))))" "c \<in> set t"
  shows "isword c \<and> lower_char c = c"
proof -
  have g: "good_tok t"
    using py_split_good [of "sub_punct (sub_links (py_lower x))"] assms(1)
    by (simp add: list_all_iff)
  with assms(2) have ns: "\<not> isspace c" by (simp add: good_tok_def)
  from assms have "c \<in> set (sub_punct (sub_links (py_lower x)))"
    using py_split_chars by blast
  then obtain d where d: "d \<in> set (sub_links (py_lower x))"
    and c: "c = (if isword d \<or> isspace d then d else CHR '' '')"
    by (auto simp: sub_punct_def)
  from c ns have cd: "c = d" and w: "isword d"
    by (auto simp: space_is_space split: if_splits)
  from d have "d \<in> set (py_lower x)" using set_sub_links by blast
  then obtain e where "d = lower_char e" by (auto simp: py_lower_def)
  then have "lower_char d = d" by (simp add: lower_char_idem)
  with cd w show ?thesis by simp
qed

lemma normalize_fixed:
  assumes ts: "list_all good_tok ts"
    and ch: "\<And>t c. t \<in> set ts \<Longrightarrow> c \<in> set t \<Longrightarrow> isword c \<and> lower_char c = c"
  shows "normalize_text (join_space ts) = join_space ts"
proof (cases "join_space ts = []")
  case True
  then show ?thesis by (simp add: normalize_text_def)
next
  case False
  have all: "\<And>c. c \<in> set (join_space ts) \<Longrightarrow> (isword c \<and> lower_char c = c) \<or> c = CHR '' ''"
    using join_space_chars [of ts] ch by blast
  have lo: "py_lower (join_space ts) = join_space ts"
  proof -
    have "lower_char c = c" if "c \<in> set (join_space ts)" for c
      using all [OF that] lower_space by auto
    then show ?thesis unfolding py_lower_def by (intro map_idI)
  qed
  have "CHR '':'' \<notin> set (join_space ts)"
    using all isword_not_colon by fastforce
  then have li: "sub_links (join_space ts) = join_space ts" by (rule sub_links_no_colon)
  have pu: "sub_punct (join_space ts) = join_space ts"
  proof -
    have "(if isword c \<or> isspace c then c else CHR '' '') = c" if "c \<in> set (join_space ts)" for c
      using all [OF that] space_is_space by auto
    then show ?thesis unfolding sub_punct_def by (intro map_idI)
  qed
  have sp: "py_split (join_space ts) = ts" using ts by (rule py_split_join)
  have st: "py_strip (join_space ts) = join_space ts"
    using join_space_ends [OF ts] by (intro py_strip_id) auto
  show ?thesis using False by (simp add: normalize_text_def lo li pu sp st)
qed

lemma normalize_idempotent: "normalize_text (normalize_text x) = normalize_text x"
proof (cases "x = []")
  case True
  then show ?thesis by (simp add: normalize_text_def)
next
  case False
  show ?thesis
    unfolding normalize_tokens [OF False]
    by (rule normalize_fixed) (auto simp: py_split_good dest: token_chars)
qed

subsection \<open>Idempotence, reflexivity, symmetry\<close>

text \<open>
  Letters beyond \<open>z\<close> are letters: \<open>normalize\<close> of the text that starts with the capital
  U+00DC (U with diaeresis) lowers it to U+00FC and keeps it, and the text that is the
  single letter U+00C4 has the score 1 with itself.
\<close>

lemma normalize_text_letters:
  "normalize_text (CHR 0xDC # ''berlast Server!'') = CHR 0xFC # ''berlast server''
   \<and> calculate_similarity [CHR 0xC4] [CHR 0xC4] = 1"
  by code_simp

lemma similarity_same:
  "calculate_similarity a a = (if normalize_text a = [] then 0 else 1)"
  by (simp add: calculate_similarity_def Let_def normalize_text_def)

lemma similarity_swap:
  assumes "ratio (normalize_text a) (normalize_text b) = ratio (normalize_text b) (normalize_text a)"
  shows "calculate_similarity a b = calculate_similarity b a"
proof -
  have i: "tokenize (normalize_text a) \<inter> tokenize (normalize_text b)
         = tokenize (normalize_text b) \<inter> tokenize (normalize_text a)"
    by (rule Int_commute)
  have u: "tokenize (normalize_text a) \<union> tokenize (normalize_text b)
         = tokenize (normalize_text b) \<union> tokenize (normalize_text a)"
    by (rule Un_commute)
  show ?thesis
    unfolding calculate_similarity_def Let_def assms i u by auto
qed

text \<open>
  Claim C9, as stated: \<open>similarity(a, a) = 1.0\<close> for every non-empty \<open>a\<close>, and
  \<open>similarity(a, b) = similarity(b, a)\<close> for all \<open>a\<close> and \<open>b\<close>. Neither holds. The
  non-empty text \<open>!\<close> normalises to the empty string, so its score with itself is
  \<open>0.0\<close>. For \<open>tide\<close> and \<open>diet\<close> the first longest match is the \<open>t\<close> at the start of
  \<open>tide\<close> and the end of \<open>diet\<close>, which leaves nothing to match on either side
  (ratio \<open>2 * 1 / 8\<close>); in the other order it is the \<open>d\<close>, after which the \<open>e\<close> is matched
  too (ratio \<open>2 * 2 / 8\<close>). The word sets are disjoint, so the scores are
  \<open>0.25 * 0.45\<close> and \<open>0.5 * 0.45\<close>.
\<close>

theorem similarity_counterexample:
  "''!'' \<noteq> [] \<and> calculate_similarity ''!'' ''!'' = 0
   \<and> calculate_similarity ''tide'' ''diet'' = 9 / 80
   \<and> calculate_similarity ''diet'' ''tide'' = 9 / 40"
  by code_simp

text \<open>
  Claim C9, amended. Normalising is idempotent for every string. The score of a text
  with itself is \<open>1.0\<close> exactly when its normalised form is not empty, and \<open>0.0\<close>
  otherwise. The score is the same in both orders whenever the sequence ratio of the two
  normalised texts is.
\<close>

theorem similarity_laws:
  "normalize_text (normalize_text x) = normalize_text x
   \<and> calculate_similarity a a = (if normalize_text a = [] then 0 else 1)
   \<and> (ratio (normalize_text a) (normalize_text b) = ratio (normalize_text b) (normalize_text a)
        \<longrightarrow> calculate_similarity a b = calculate_similarity b a)"
  using normalize_idempotent similarity_same similarity_swap by blast

theorem similarity_laws_witness:
  "normalize_text ''  Disk-Space  LOW controlup://x/y?z=1 on_Server#1  ''
     = ''disk space low on_server 1''
   \<and> normalize_text ''disk space low on_server 1'' = ''disk space low on_server 1''
   \<and> calculate_similarity ''Disk Full!'' ''Disk Full!'' = 1
   \<and> ratio ''disk full'' ''full disk'' = ratio ''full disk'' ''disk full''
   \<and> calculate_similarity ''Disk Full!'' ''full disk'' = 3 / 4
   \<and> calculate_similarity ''full disk'' ''Disk Full!'' = 3 / 4"
proof -
  have n0: "normalize_text ''  Disk-Space  LOW controlup://x/y?z=1 on_Server#1  ''
      = ''disk space low on_server 1''"
    by code_simp
  have n1: "normalize_text ''Disk Full!'' = ''disk full''" by code_simp
  have n2: "normalize_text ''full disk'' = ''full disk''" by code_simp
  have r: "ratio ''disk full'' ''full disk'' = ratio ''full disk'' ''disk full''" by code_simp
  have s: "calculate_similarity ''Disk Full!'' ''full disk'' = 3 / 4" by code_simp
  from similarity_laws [of "''  Disk-Space  LOW controlup://x/y?z=1 on_Server#1  ''"
      "''Disk Full!''" "''full disk''"]
  show ?thesis unfolding n0 n1 n2 using r s by simp
qed

end
